theory Spec2Isabelle
  imports Main "HOL-Library.Word" "HOL-Library.Signed_Division"
begin

section \<open>Swatantra core: data model\<close>

text \<open>
  A shallow embedding of the chain core of the Swatantra node (package \<open>core\<close>:
  \<open>types.go\<close>, \<open>merkle_tree.go\<close>, \<open>pow.go\<close>, \<open>block_store.go\<close>, \<open>genesis.go\<close>,
  \<open>blockchain.go\<close>) together with the key-value interface of package \<open>storage\<close>.

  Go's fixed-width integers are words: \<open>uint32\<close> is \<open>32 word\<close>, \<open>int64\<close> is \<open>64 word\<close>
  read through \<open>sint\<close>, \<open>uint64\<close> is \<open>64 word\<close>. A \<open>crypto.Hash\<close> is a \<open>[32]byte\<close> array,
  that is a 256-bit value; it is a \<open>256 word\<close> whose big-endian bytes are the array
  (\<open>hash_bytes\<close>). A \<open>crypto.Address\<close> is a \<open>[20]byte\<close>, a \<open>160 word\<close>. A \<open>*big.Int\<close> is an
  \<open>int option\<close>, \<open>None\<close> being the nil pointer.
\<close>

type_synonym byte = "8 word"
type_synonym bytes = "byte list"
type_synonym Hash = "256 word"
type_synonym Address = "160 word"

record Header =
  Version :: "32 word"
  PrevHash :: Hash
  Height :: "32 word"
  MerkleRoot :: Hash
  Timestamp :: "64 word"
  Difficulty :: "32 word"
  Nonce :: "64 word"
  EMABlockTime :: "64 word"
  CumulativeWork :: "int option"

record TxInput =
  PrevTxHash :: Hash
  PrevOutIndex :: "32 word"
  PublicKey :: bytes
  Signature :: bytes

record TxOutput =
  Value :: "64 word"
  Address :: Address

record Transaction =
  Inputs :: "TxInput list"
  Outputs :: "TxOutput list"

record Block =
  Header :: Header
  Transactions :: "Transaction list"

record SpentUTXO =
  TxHash :: Hash
  Index :: "32 word"
  Output :: TxOutput

record BlockUndo =
  SpentUTXOs :: "SpentUTXO list"

text \<open>
  The primitives the core imports from outside the repository are parameters of the
  model: legacy Keccak-256 (\<open>golang.org/x/crypto/sha3\<close>), Ed25519 verification
  (\<open>crypto/ed25519\<close>) and the \<open>encoding/gob\<close> encoders and decoders of the five types the
  core serialises. The encoders are total (the record types above hold no nil element,
  the one value on which gob encoding of these types fails); the decoders fail on bytes
  that are no encoding.
\<close>

record Externals =
  Keccak256 :: "bytes \<Rightarrow> Hash"
  Ed25519Verify :: "bytes \<Rightarrow> bytes \<Rightarrow> bytes \<Rightarrow> bool"
  gobHeader :: "Header \<Rightarrow> bytes"
  gobTransaction :: "Transaction \<Rightarrow> bytes"
  gobBlock :: "Block \<Rightarrow> bytes"
  ungobBlock :: "bytes \<Rightarrow> Block option"
  gobTxOutput :: "TxOutput \<Rightarrow> bytes"
  ungobTxOutput :: "bytes \<Rightarrow> TxOutput option"
  gobBlockUndo :: "BlockUndo \<Rightarrow> bytes"
  ungobBlockUndo :: "bytes \<Rightarrow> BlockUndo option"

subsection \<open>Hashes as byte strings\<close>

text \<open>\<open>be_bytes n x\<close>: the \<open>n\<close> low-order base-256 digits of \<open>x\<close>, most significant first.\<close>

fun be_bytes :: "nat \<Rightarrow> nat \<Rightarrow> bytes" where
  "be_bytes 0 x = []"
| "be_bytes (Suc n) x = be_bytes n (x div 256) @ [of_nat (x mod 256)]"

text \<open>\<open>hash[:]\<close>: the 32 bytes of a hash.\<close>

definition hash_bytes :: "Hash \<Rightarrow> bytes" where
  "hash_bytes h = be_bytes 32 (unat h)"

text \<open>\<open>binary.BigEndian.PutUint32\<close>.\<close>

definition be32 :: "32 word \<Rightarrow> bytes" where
  "be32 i = be_bytes 4 (unat i)"

text \<open>\<open>Hash.IsZero\<close>: \<open>h == (Hash{})\<close>.\<close>

definition IsZero :: "Hash \<Rightarrow> bool" where
  "IsZero h = (h = 0)"

section \<open>Headers and their hash (\<open>types.go\<close>)\<close>

text \<open>
  \<open>Header.EncodeForHashing\<close> copies the header, sets the copy's \<open>CumulativeWork\<close> to nil
  and gob-encodes the copy. \<open>Header.Hash\<close> is Keccak-256 of these bytes.
\<close>

definition EncodeForHashing :: "Externals \<Rightarrow> Header \<Rightarrow> bytes" where
  "EncodeForHashing X h = (let hCopy = h\<lparr>CumulativeWork := None\<rparr> in gobHeader X hCopy)"

definition Header_Hash :: "Externals \<Rightarrow> Header \<Rightarrow> Hash" where
  "Header_Hash X h = Keccak256 X (EncodeForHashing X h)"

section \<open>The difficulty controller (\<open>blockchain.go\<close>)\<close>

text \<open>
  \<open>TargetBlockTime = 15 * time.Second\<close>, a \<open>time.Duration\<close>, which counts nanoseconds in an
  \<open>int64\<close>. Go's \<open>/\<close> on \<open>int64\<close> truncates towards zero; \<open>+\<close>, \<open>-\<close> and \<open>*\<close> wrap around.
\<close>

definition TargetBlockTime :: "64 word" where
  "TargetBlockTime = 15000000000"

definition emaAlphaNumerator :: "64 word" where
  "emaAlphaNumerator = 95"

definition emaAlphaDenominator :: "64 word" where
  "emaAlphaDenominator = 1000"

definition div64 :: "64 word \<Rightarrow> 64 word \<Rightarrow> 64 word" where
  "div64 a b = word_of_int (sint a sdiv sint b)"

definition CalculateNextDifficulty :: "Header \<Rightarrow> 64 word \<Rightarrow> 32 word \<times> 64 word" where
  "CalculateNextDifficulty parentHeader newTimestamp =
     (if Height parentHeader = 0 then (Difficulty parentHeader, EMABlockTime parentHeader)
      else
        let actualBlockTime = newTimestamp - Timestamp parentHeader;
            prevEMABlockTime = EMABlockTime parentHeader;
            newEMABlockTime =
              div64 (emaAlphaNumerator * actualBlockTime
                       + (emaAlphaDenominator - emaAlphaNumerator) * prevEMABlockTime)
                    emaAlphaDenominator;
            lowerBound = TargetBlockTime - div64 TargetBlockTime 4;
            upperBound = TargetBlockTime + div64 TargetBlockTime 2
        in if word_sless newEMABlockTime lowerBound
           then (Difficulty parentHeader + 1, newEMABlockTime)
           else if word_sless upperBound newEMABlockTime
           then (if Difficulty parentHeader > 1 then Difficulty parentHeader - 1 else 1,
                 newEMABlockTime)
           else (Difficulty parentHeader, newEMABlockTime))"

text \<open>
  The controller as the specification words it, over the mathematical integers:
  \<open>new_ema = (\<alpha>_num \<cdot> actual + (\<alpha>_den - \<alpha>_num) \<cdot> parent.ema) / \<alpha>_den\<close> with truncated
  division, \<open>lower = T - T/4\<close>, \<open>upper = T + T/2\<close>, and the three difficulty cases.
  The arguments are the parent's height, difficulty, EMA and timestamp and the new
  timestamp.
\<close>

definition spec_T_target :: int where
  "spec_T_target = 15000000000"

definition spec_controller :: "int \<Rightarrow> int \<Rightarrow> int \<Rightarrow> int \<Rightarrow> int \<Rightarrow> int \<times> int" where
  "spec_controller height difficulty ema timestamp new_timestamp =
     (if height = 0 then (difficulty, ema)
      else
        let actual = new_timestamp - timestamp;
            new_ema = (95 * actual + (1000 - 95) * ema) sdiv 1000;
            lower = spec_T_target - spec_T_target sdiv 4;
            upper = spec_T_target + spec_T_target sdiv 2
        in if new_ema < lower then (difficulty + 1, new_ema)
           else if new_ema > upper then (max 1 (difficulty - 1), new_ema)
           else (difficulty, new_ema))"

text \<open>The values an \<open>int64\<close> holds.\<close>

definition in_int64 :: "int \<Rightarrow> bool" where
  "in_int64 k = (- (2 ^ 63) \<le> k \<and> k < 2 ^ 63)"

section \<open>Transactions (\<open>types.go\<close>)\<close>

text \<open>
  \<open>Transaction.Hash\<close> hashes a copy of the transaction in which every input keeps only
  \<open>PrevTxHash\<close> and \<open>PrevOutIndex\<close> (public key and signature are left nil, which gob
  encodes as the empty slice). \<open>Block.Hash\<close> is the hash of the block's header. Both
  methods memoise their result in an unexported field that gob neither writes nor reads;
  the model computes the digest of the current fields, which is what the methods return
  on a block or transaction that was decoded or built and not hashed before its fields
  were final.
\<close>

definition Transaction_Hash :: "Externals \<Rightarrow> Transaction \<Rightarrow> Hash" where
  "Transaction_Hash X tx =
     (let txCopy = tx\<lparr>Inputs :=
            map (\<lambda>input. \<lparr>PrevTxHash = PrevTxHash input, PrevOutIndex = PrevOutIndex input,
                           PublicKey = [], Signature = []\<rparr>) (Inputs tx)\<rparr>
      in Keccak256 X (gobTransaction X txCopy))"

definition Block_Hash :: "Externals \<Rightarrow> Block \<Rightarrow> Hash" where
  "Block_Hash X b = Header_Hash X (Header b)"

text \<open>\<open>IsCoinbase\<close>: \<open>len(tx.Inputs) == 1 && tx.Inputs[0].PrevTxHash.IsZero()\<close>.\<close>

definition IsCoinbase :: "Transaction \<Rightarrow> bool" where
  "IsCoinbase tx = (case Inputs tx of [input] \<Rightarrow> IsZero (PrevTxHash input) | _ \<Rightarrow> False)"

section \<open>Errors\<close>

text \<open>
  The adapter's errors: LevelDB's not-found error and any other failure of the
  database. The core's errors, one constructor for each place that makes one; the three
  last ones are runtime panics, which do not return to the caller.
\<close>

datatype store_error = ErrNotFound | ErrIO

datatype error =
    StoreError store_error
  | DecodeError
  | ParentNotFound error
  | InvalidHeight
  | InvalidDifficulty
  | InvalidEMABlockTime
  | GenesisPrevHash
  | InvalidProofOfWork
  | InvalidMerkleRoot
  | InvalidTransaction
  | InputNotInUTXOSet
  | UTXONotFound
  | UndoNotFound
  | HeaderNotFound
  | NoCommonAncestor
  | AncestorError error
  | RollbackPathError error
  | ApplyPathError error
  | NilDereference
  | IndexOutOfRange
  | BadPublicKeyLength

definition is_panic :: "error \<Rightarrow> bool" where
  "is_panic e = (e = NilDereference \<or> e = IndexOutOfRange \<or> e = BadPublicKeyLength)"

text \<open>
  \<open>Transaction.Verify\<close> checks the inputs in order: \<open>ed25519.Verify\<close> panics on a public key
  that is not 32 bytes long, and the first signature that fails makes the result false.
\<close>

fun verifyInputs :: "Externals \<Rightarrow> Hash \<Rightarrow> TxInput list \<Rightarrow> error + bool" where
  "verifyInputs X hash [] = Inr True"
| "verifyInputs X hash (input # inputs) =
     (if length (PublicKey input) \<noteq> 32 then Inl BadPublicKeyLength
      else if \<not> Ed25519Verify X (PublicKey input) (hash_bytes hash) (Signature input)
      then Inr False
      else verifyInputs X hash inputs)"

definition Verify :: "Externals \<Rightarrow> Transaction \<Rightarrow> error + bool" where
  "Verify X tx =
     (if IsCoinbase tx then Inr True
      else verifyInputs X (Transaction_Hash X tx) (Inputs tx))"

section \<open>Merkle tree (\<open>merkle_tree.go\<close>)\<close>

datatype MerkleNode =
  MerkleNode (Left: "MerkleNode option") (Right: "MerkleNode option") (Data: Hash)

record MerkleTree =
  RootNode :: MerkleNode

text \<open>
  \<open>NewMerkleNode\<close>: a leaf when both children are nil, else an inner node over the two
  children's data; with exactly one nil child the inner branch dereferences nil.
\<close>

definition NewMerkleNode ::
  "Externals \<Rightarrow> MerkleNode option \<Rightarrow> MerkleNode option \<Rightarrow> bytes \<Rightarrow> error + MerkleNode" where
  "NewMerkleNode X left right data =
     (if left = None \<and> right = None then Inr (MerkleNode None None (Keccak256 X data))
      else case (left, right) of
        (Some l, Some r) \<Rightarrow>
          let prevHashes = hash_bytes (Data l) @ hash_bytes (Data r)
          in Inr (MerkleNode left right (Keccak256 X prevHashes))
      | _ \<Rightarrow> Inl NilDereference)"

text \<open>The leaves, one for each transaction, over the bytes of its hash.\<close>

fun leafNodes :: "Externals \<Rightarrow> Transaction list \<Rightarrow> error + MerkleNode list" where
  "leafNodes X [] = Inr []"
| "leafNodes X (tx # txs) =
     (case NewMerkleNode X None None (hash_bytes (Transaction_Hash X tx)) of
        Inl e \<Rightarrow> Inl e
      | Inr node \<Rightarrow> (case leafNodes X txs of Inl e \<Rightarrow> Inl e | Inr nodes \<Rightarrow> Inr (node # nodes)))"

text \<open>The inner loop \<open>for i := 0; i < len(nodes); i += 2\<close>, over \<open>nodes[i]\<close> and \<open>nodes[i+1]\<close>.\<close>

fun pairUp :: "Externals \<Rightarrow> MerkleNode list \<Rightarrow> error + MerkleNode list" where
  "pairUp X [] = Inr []"
| "pairUp X [a] = Inl IndexOutOfRange"
| "pairUp X (a # b # rest) =
     (case NewMerkleNode X (Some a) (Some b) [] of
        Inl e \<Rightarrow> Inl e
      | Inr node \<Rightarrow> (case pairUp X rest of Inl e \<Rightarrow> Inl e | Inr nodes \<Rightarrow> Inr (node # nodes)))"

text \<open>The outer loop \<open>for len(nodes) > 1\<close>: duplicate the last node of an odd level, pair up.\<close>

function buildLevels :: "Externals \<Rightarrow> MerkleNode list \<Rightarrow> error + MerkleNode list" where
  "buildLevels X nodes =
     (if length nodes > 1 then
        (case pairUp X (if length nodes mod 2 \<noteq> 0 then nodes @ [last nodes] else nodes) of
           Inl e \<Rightarrow> Inl e
         | Inr newLevel \<Rightarrow> buildLevels X newLevel)
      else Inr nodes)"
  by pat_completeness auto
termination
proof (relation "measure (\<lambda>(X, nodes). length nodes)")
  show "wf (measure (\<lambda>(X, nodes). length nodes))" by simp
next
  fix X :: Externals and nodes newLevel :: "MerkleNode list"
  assume big: "1 < length nodes"
    and pu: "pairUp X (if length nodes mod 2 \<noteq> 0 then nodes @ [last nodes] else nodes)
             = Inr newLevel"
  have len: "pairUp X xs = Inr ys \<Longrightarrow> 2 * length ys = length xs" for xs ys
    by (induction X xs arbitrary: ys rule: pairUp.induct) (auto split: sum.splits)
  have "2 * length newLevel \<le> length nodes + 1"
    using len [OF pu] by (simp split: if_splits)
  then show "((X, newLevel), (X, nodes)) \<in> measure (\<lambda>(X, nodes). length nodes)"
    using big by simp
qed

text \<open>
  \<open>NewMerkleTree\<close> returns \<open>(nil, nil)\<close> on an empty list: \<open>Inr None\<close>. Otherwise the tree
  whose root is \<open>nodes[0]\<close> after the loop.
\<close>

definition NewMerkleTree :: "Externals \<Rightarrow> Transaction list \<Rightarrow> error + MerkleTree option" where
  "NewMerkleTree X transactions =
     (if length transactions = 0 then Inr None
      else case leafNodes X transactions of
        Inl e \<Rightarrow> Inl e
      | Inr nodes \<Rightarrow>
          (case buildLevels X nodes of
             Inl e \<Rightarrow> Inl e
           | Inr [] \<Rightarrow> Inl IndexOutOfRange
           | Inr (root # _) \<Rightarrow> Inr (Some \<lparr>RootNode = root\<rparr>)))"

section \<open>Proof of work (\<open>pow.go\<close>)\<close>

record ProofOfWork =
  block :: Block
  target :: int

text \<open>
  \<open>NewProofOfWork\<close>: the target is 1 shifted left by \<open>uint(256 - Difficulty)\<close>, the
  subtraction being a \<open>uint32\<close> one.
\<close>

definition NewProofOfWork :: "Block \<Rightarrow> ProofOfWork" where
  "NewProofOfWork b =
     \<lparr>block = b, target = 2 ^ unat (256 - Difficulty (Header b))\<rparr>"

text \<open>\<open>Validate\<close>: the header hash, read as a big-endian integer, is below the target.\<close>

definition Validate :: "Externals \<Rightarrow> ProofOfWork \<Rightarrow> bool" where
  "Validate X pow =
     (let hash = Keccak256 X (EncodeForHashing X (Header (block pow)))
      in uint hash < target pow)"

text \<open>\<open>Work\<close>: \<open>2^256 / (target + 1)\<close>.\<close>

definition Work :: "ProofOfWork \<Rightarrow> int" where
  "Work pow = 2 ^ 256 div (target pow + 1)"

text \<open>
  \<open>Run\<close> searches the nonces from 0 upwards, a \<open>uint64\<close> that wraps around, with no
  bound: when no nonce gives a hash below the target it does not return (\<open>None\<close>).
\<close>

partial_function (option) Run_from ::
  "Externals \<Rightarrow> ProofOfWork \<Rightarrow> 64 word \<Rightarrow> (64 word \<times> Hash) option" where
  "Run_from X pow nonce =
     (if uint (Keccak256 X (EncodeForHashing X ((Header (block pow))\<lparr>Nonce := nonce\<rparr>)))
          < target pow
      then Some (nonce,
             Keccak256 X (EncodeForHashing X ((Header (block pow))\<lparr>Nonce := nonce\<rparr>)))
      else Run_from X pow (nonce + 1))"

definition Run :: "Externals \<Rightarrow> ProofOfWork \<Rightarrow> (64 word \<times> Hash) option" where
  "Run X pow = Run_from X pow 0"

section \<open>The key-value store (\<open>storage.Store\<close>)\<close>

text \<open>
  The state of a store is its finite map from keys to values. The operations of the
  interface return an error beside their result; the two fault predicates say on which
  keys the database fails to read and to write, so that every error branch of the core
  is a branch of the model. \<open>Get\<close> of an absent key is LevelDB's not-found error, \<open>Has\<close>
  of it is false, \<open>Delete\<close> of it succeeds.
\<close>

record Store =
  cells :: "bytes \<rightharpoonup> bytes"
  read_fault :: "bytes \<Rightarrow> bool"
  write_fault :: "bytes \<Rightarrow> bool"

definition Store_Get :: "Store \<Rightarrow> bytes \<Rightarrow> store_error + bytes" where
  "Store_Get s key =
     (if read_fault s key then Inl ErrIO
      else case cells s key of None \<Rightarrow> Inl ErrNotFound | Some v \<Rightarrow> Inr v)"

definition Store_Has :: "Store \<Rightarrow> bytes \<Rightarrow> store_error + bool" where
  "Store_Has s key = (if read_fault s key then Inl ErrIO else Inr (cells s key \<noteq> None))"

definition Store_Put :: "Store \<Rightarrow> bytes \<Rightarrow> bytes \<Rightarrow> (store_error + unit) \<times> Store" where
  "Store_Put s key v =
     (if write_fault s key then (Inl ErrIO, s)
      else (Inr (), s\<lparr>cells := (cells s)(key \<mapsto> v)\<rparr>))"

definition Store_Delete :: "Store \<Rightarrow> bytes \<Rightarrow> (store_error + unit) \<times> Store" where
  "Store_Delete s key =
     (if write_fault s key then (Inl ErrIO, s)
      else (Inr (), s\<lparr>cells := (cells s)(key := None)\<rparr>))"

subsection \<open>Keys\<close>

text \<open>\<open>headKey = []byte("head")\<close>; \<open>'u' || hash || index\<close>; \<open>'z' || hash\<close>.\<close>

definition headKey :: bytes where
  "headKey = [104, 101, 97, 100]"

definition utxoKeyPrefix :: bytes where
  "utxoKeyPrefix = [117]"

definition undoKeyPrefix :: bytes where
  "undoKeyPrefix = [122]"

definition getUTXOKey :: "Hash \<Rightarrow> 32 word \<Rightarrow> bytes" where
  "getUTXOKey hash index = utxoKeyPrefix @ hash_bytes hash @ be32 index"

definition getUndoKey :: "Hash \<Rightarrow> bytes" where
  "getUndoKey hash = undoKeyPrefix @ hash_bytes hash"

section \<open>Block store (\<open>block_store.go\<close>)\<close>

definition BlockStore_Put :: "Externals \<Rightarrow> Store \<Rightarrow> Block \<Rightarrow> (error + unit) \<times> Store" where
  "BlockStore_Put X s b =
     (let hash = Block_Hash X b; encoded = gobBlock X b
      in case Store_Put s (hash_bytes hash) encoded of
           (Inl e, s') \<Rightarrow> (Inl (StoreError e), s')
         | (Inr u, s') \<Rightarrow> (Inr (), s'))"

definition BlockStore_Get :: "Externals \<Rightarrow> Store \<Rightarrow> Hash \<Rightarrow> error + Block" where
  "BlockStore_Get X s hash =
     (case Store_Get s (hash_bytes hash) of
        Inl e \<Rightarrow> Inl (StoreError e)
      | Inr encoded \<Rightarrow>
          (case ungobBlock X encoded of None \<Rightarrow> Inl DecodeError | Some b \<Rightarrow> Inr b))"

definition BlockStore_GetHeader :: "Externals \<Rightarrow> Store \<Rightarrow> Hash \<Rightarrow> error + Header" where
  "BlockStore_GetHeader X s hash =
     (case BlockStore_Get X s hash of Inl e \<Rightarrow> Inl e | Inr b \<Rightarrow> Inr (Header b))"

section \<open>The chain manager (\<open>blockchain.go\<close>)\<close>

text \<open>
  The \<open>Blockchain\<close> struct: the store (the block store wraps the same store), the
  in-memory header index and the head, a pointer that is nil before the constructor has
  set it. The headers behind the pointers of the index and of the head are not written
  after they are stored, so the model holds them by value.
\<close>

record Blockchain =
  store :: Store
  headers :: "Hash \<rightharpoonup> Header"
  head :: "Header option"

definition HasUTXO :: "Store \<Rightarrow> Hash \<Rightarrow> 32 word \<Rightarrow> error + bool" where
  "HasUTXO s hash index =
     (case Store_Has s (getUTXOKey hash index) of
        Inl e \<Rightarrow> Inl (StoreError e) | Inr ok \<Rightarrow> Inr ok)"

definition GetUTXO :: "Externals \<Rightarrow> Store \<Rightarrow> Hash \<Rightarrow> 32 word \<Rightarrow> error + TxOutput" where
  "GetUTXO X s hash index =
     (case Store_Get s (getUTXOKey hash index) of
        Inl e \<Rightarrow> Inl (StoreError e)
      | Inr data \<Rightarrow>
          (case ungobTxOutput X data of None \<Rightarrow> Inl DecodeError | Some output \<Rightarrow> Inr output))"

subsection \<open>\<open>updateUTXOSet\<close>\<close>

text \<open>
  The first pair of loops: for every input of every non-coinbase transaction, read the
  UTXO, append it to the undo record, delete its key. Any failure of the read is
  reported as the missing UTXO. The store keeps what was done before an error.
\<close>

fun spendInputs ::
  "Externals \<Rightarrow> TxInput list \<Rightarrow> Store \<Rightarrow> SpentUTXO list
   \<Rightarrow> (error + unit) \<times> Store \<times> SpentUTXO list" where
  "spendInputs X [] s spent = (Inr (), s, spent)"
| "spendInputs X (input # inputs) s spent =
     (case GetUTXO X s (PrevTxHash input) (PrevOutIndex input) of
        Inl e \<Rightarrow> (Inl UTXONotFound, s, spent)
      | Inr spentOutput \<Rightarrow>
          let spentUTXO = \<lparr>TxHash = PrevTxHash input, Index = PrevOutIndex input,
                           Output = spentOutput\<rparr>;
              spent' = spent @ [spentUTXO];
              key = getUTXOKey (PrevTxHash input) (PrevOutIndex input)
          in (case Store_Delete s key of
                (Inl e, s') \<Rightarrow> (Inl (StoreError e), s', spent')
              | (Inr u, s') \<Rightarrow> spendInputs X inputs s' spent'))"

fun spendTransactions ::
  "Externals \<Rightarrow> Transaction list \<Rightarrow> Store \<Rightarrow> SpentUTXO list
   \<Rightarrow> (error + unit) \<times> Store \<times> SpentUTXO list" where
  "spendTransactions X [] s spent = (Inr (), s, spent)"
| "spendTransactions X (tx # txs) s spent =
     (if \<not> IsCoinbase tx then
        (case spendInputs X (Inputs tx) s spent of
           (Inl e, s', spent') \<Rightarrow> (Inl e, s', spent')
         | (Inr u, s', spent') \<Rightarrow> spendTransactions X txs s' spent')
      else spendTransactions X txs s spent)"

text \<open>
  The second pair of loops: every output of every transaction is written under
  \<open>getUTXOKey(txHash, uint32(i))\<close>; \<open>i\<close> is the position of the output.
\<close>

fun putOutputs ::
  "Externals \<Rightarrow> Hash \<Rightarrow> nat \<Rightarrow> TxOutput list \<Rightarrow> Store \<Rightarrow> (error + unit) \<times> Store" where
  "putOutputs X txHash i [] s = (Inr (), s)"
| "putOutputs X txHash i (output # outputs) s =
     (let key = getUTXOKey txHash (of_nat i); encoded = gobTxOutput X output
      in case Store_Put s key encoded of
           (Inl e, s') \<Rightarrow> (Inl (StoreError e), s')
         | (Inr u, s') \<Rightarrow> putOutputs X txHash (Suc i) outputs s')"

fun putTransactions ::
  "Externals \<Rightarrow> Transaction list \<Rightarrow> Store \<Rightarrow> (error + unit) \<times> Store" where
  "putTransactions X [] s = (Inr (), s)"
| "putTransactions X (tx # txs) s =
     (let txHash = Transaction_Hash X tx
      in case putOutputs X txHash 0 (Outputs tx) s of
           (Inl e, s') \<Rightarrow> (Inl e, s')
         | (Inr u, s') \<Rightarrow> putTransactions X txs s')"

definition updateUTXOSet :: "Externals \<Rightarrow> Store \<Rightarrow> Block \<Rightarrow> (error + unit) \<times> Store" where
  "updateUTXOSet X s b =
     (case spendTransactions X (Transactions b) s [] of
        (Inl e, s1, spent) \<Rightarrow> (Inl e, s1)
      | (Inr u, s1, spent) \<Rightarrow>
          (case putTransactions X (Transactions b) s1 of
             (Inl e, s2) \<Rightarrow> (Inl e, s2)
           | (Inr u, s2) \<Rightarrow>
               let undoBlock = \<lparr>SpentUTXOs = spent\<rparr>;
                   blockHash = Block_Hash X b;
                   undoKey = getUndoKey blockHash;
                   undoData = gobBlockUndo X undoBlock
               in (case Store_Put s2 undoKey undoData of
                     (Inl e, s3) \<Rightarrow> (Inl (StoreError e), s3)
                   | (Inr u, s3) \<Rightarrow> (Inr (), s3))))"

subsection \<open>\<open>rollbackUTXOSet\<close>\<close>

fun deleteOutputs ::
  "Hash \<Rightarrow> nat \<Rightarrow> TxOutput list \<Rightarrow> Store \<Rightarrow> (error + unit) \<times> Store" where
  "deleteOutputs txHash i [] s = (Inr (), s)"
| "deleteOutputs txHash i (output # outputs) s =
     (let key = getUTXOKey txHash (of_nat i)
      in case Store_Delete s key of
           (Inl e, s') \<Rightarrow> (Inl (StoreError e), s')
         | (Inr u, s') \<Rightarrow> deleteOutputs txHash (Suc i) outputs s')"

fun deleteTransactions ::
  "Externals \<Rightarrow> Transaction list \<Rightarrow> Store \<Rightarrow> (error + unit) \<times> Store" where
  "deleteTransactions X [] s = (Inr (), s)"
| "deleteTransactions X (tx # txs) s =
     (let txHash = Transaction_Hash X tx
      in case deleteOutputs txHash 0 (Outputs tx) s of
           (Inl e, s') \<Rightarrow> (Inl e, s')
         | (Inr u, s') \<Rightarrow> deleteTransactions X txs s')"

fun restoreSpent :: "Externals \<Rightarrow> SpentUTXO list \<Rightarrow> Store \<Rightarrow> (error + unit) \<times> Store" where
  "restoreSpent X [] s = (Inr (), s)"
| "restoreSpent X (spentUTXO # rest) s =
     (let key = getUTXOKey (TxHash spentUTXO) (Index spentUTXO);
          encoded = gobTxOutput X (Output spentUTXO)
      in case Store_Put s key encoded of
           (Inl e, s') \<Rightarrow> (Inl (StoreError e), s')
         | (Inr u, s') \<Rightarrow> restoreSpent X rest s')"

definition rollbackUTXOSet :: "Externals \<Rightarrow> Store \<Rightarrow> Block \<Rightarrow> (error + unit) \<times> Store" where
  "rollbackUTXOSet X s b =
     (let blockHash = Block_Hash X b; undoKey = getUndoKey blockHash
      in case Store_Get s undoKey of
           Inl e \<Rightarrow> (Inl UndoNotFound, s)
         | Inr undoData \<Rightarrow>
             (case ungobBlockUndo X undoData of
                None \<Rightarrow> (Inl DecodeError, s)
              | Some undoBlock \<Rightarrow>
                  (case deleteTransactions X (Transactions b) s of
                     (Inl e, s1) \<Rightarrow> (Inl e, s1)
                   | (Inr u, s1) \<Rightarrow>
                       (case restoreSpent X (SpentUTXOs undoBlock) s1 of
                          (Inl e, s2) \<Rightarrow> (Inl e, s2)
                        | (Inr u, s2) \<Rightarrow>
                            (case Store_Delete s2 undoKey of
                               (Inl e, s3) \<Rightarrow> (Inl (StoreError e), s3)
                             | (Inr u, s3) \<Rightarrow> (Inr (), s3))))))"

subsection \<open>\<open>ValidateTransaction\<close>\<close>

text \<open>
  The Go result \<open>(bool, error)\<close>: \<open>Inl\<close> is a non-nil error, \<open>Inr v\<close> is \<open>(v, nil)\<close>.
\<close>

fun inputsInUTXOSet :: "Store \<Rightarrow> TxInput list \<Rightarrow> error + unit" where
  "inputsInUTXOSet s [] = Inr ()"
| "inputsInUTXOSet s (input # inputs) =
     (case HasUTXO s (PrevTxHash input) (PrevOutIndex input) of
        Inl e \<Rightarrow> Inl e
      | Inr ok \<Rightarrow> if \<not> ok then Inl InputNotInUTXOSet else inputsInUTXOSet s inputs)"

definition ValidateTransaction :: "Externals \<Rightarrow> Blockchain \<Rightarrow> Transaction \<Rightarrow> error + bool" where
  "ValidateTransaction X bc tx =
     (if IsCoinbase tx then Inr True
      else case inputsInUTXOSet (store bc) (Inputs tx) of
             Inl e \<Rightarrow> Inl e
           | Inr u \<Rightarrow> Verify X tx)"

subsection \<open>\<open>ValidateBlock\<close>\<close>

text \<open>
  The four parts of \<open>ValidateBlock\<close>, in the order of the source. The first one, for a
  block above height 0, takes the parent header from the index or else from the block
  store, and in the second case stores it in the index before the checks of height,
  difficulty and EMA; for a block at height 0 it checks the zero previous hash.
\<close>

definition checkAgainstParent :: "Header \<Rightarrow> Block \<Rightarrow> error + unit" where
  "checkAgainstParent prevHeader b =
     (if Height (Header b) \<noteq> Height prevHeader + 1 then Inl InvalidHeight
      else case CalculateNextDifficulty prevHeader (Timestamp (Header b)) of
        (expectedDifficulty, expectedEMABlockTime) \<Rightarrow>
          if Difficulty (Header b) \<noteq> expectedDifficulty then Inl InvalidDifficulty
          else if EMABlockTime (Header b) \<noteq> expectedEMABlockTime then Inl InvalidEMABlockTime
          else Inr ())"

definition checkParent :: "Externals \<Rightarrow> Blockchain \<Rightarrow> Block \<Rightarrow> (error + unit) \<times> Blockchain" where
  "checkParent X bc b =
     (if Height (Header b) > 0 then
        (case headers bc (PrevHash (Header b)) of
           Some prevHeader \<Rightarrow> (checkAgainstParent prevHeader b, bc)
         | None \<Rightarrow>
             (case BlockStore_GetHeader X (store bc) (PrevHash (Header b)) of
                Inl e \<Rightarrow> (Inl (ParentNotFound e), bc)
              | Inr prevHeader \<Rightarrow>
                  (checkAgainstParent prevHeader b,
                   bc\<lparr>headers := (headers bc)(PrevHash (Header b) \<mapsto> prevHeader)\<rparr>)))
      else if \<not> IsZero (PrevHash (Header b)) then (Inl GenesisPrevHash, bc)
      else (Inr (), bc))"

definition checkProofOfWork :: "Externals \<Rightarrow> Block \<Rightarrow> error + unit" where
  "checkProofOfWork X b =
     (if \<not> Validate X (NewProofOfWork b) then Inl InvalidProofOfWork else Inr ())"

text \<open>\<open>mTree.RootNode.Data\<close> dereferences the tree, which is nil for an empty list.\<close>

definition checkMerkleRoot :: "Externals \<Rightarrow> Block \<Rightarrow> error + unit" where
  "checkMerkleRoot X b =
     (case NewMerkleTree X (Transactions b) of
        Inl e \<Rightarrow> Inl e
      | Inr None \<Rightarrow> Inl NilDereference
      | Inr (Some mTree) \<Rightarrow>
          if Data (RootNode mTree) \<noteq> MerkleRoot (Header b) then Inl InvalidMerkleRoot
          else Inr ())"

fun checkTransactions :: "Externals \<Rightarrow> Blockchain \<Rightarrow> Transaction list \<Rightarrow> error + unit" where
  "checkTransactions X bc [] = Inr ()"
| "checkTransactions X bc (tx # txs) =
     (if \<not> IsCoinbase tx then
        (case ValidateTransaction X bc tx of
           Inl e \<Rightarrow> Inl e
         | Inr valid \<Rightarrow>
             if \<not> valid then Inl InvalidTransaction else checkTransactions X bc txs)
      else checkTransactions X bc txs)"

definition ValidateBlock :: "Externals \<Rightarrow> Blockchain \<Rightarrow> Block \<Rightarrow> (error + unit) \<times> Blockchain" where
  "ValidateBlock X bc b =
     (case checkParent X bc b of
        (Inl e, bc') \<Rightarrow> (Inl e, bc')
      | (Inr u, bc') \<Rightarrow>
          (case checkProofOfWork X b of
             Inl e \<Rightarrow> (Inl e, bc')
           | Inr u \<Rightarrow>
               (case checkMerkleRoot X b of
                  Inl e \<Rightarrow> (Inl e, bc')
                | Inr u \<Rightarrow> (checkTransactions X bc' (Transactions b), bc'))))"

subsection \<open>Chain paths and reorganisation\<close>

text \<open>
  \<open>getChainPath\<close> walks the index from \<open>startHash\<close> towards \<open>endHash\<close>. The walk has no
  bound: on an index whose previous-hash links form a cycle it does not return.
\<close>

partial_function (option) getChainPath_loop ::
  "(Hash \<rightharpoonup> Header) \<Rightarrow> Hash \<Rightarrow> Hash \<Rightarrow> Hash list \<Rightarrow> (error + Hash list) option" where
  "getChainPath_loop hs endHash currentHash path =
     (if currentHash \<noteq> endHash \<and> \<not> IsZero currentHash then
        (case hs currentHash of
           None \<Rightarrow> Some (Inl HeaderNotFound)
         | Some header \<Rightarrow>
             if Height header = 0 then Some (Inr (path @ [currentHash]))
             else getChainPath_loop hs endHash (PrevHash header) (path @ [currentHash]))
      else Some (Inr path))"

definition getChainPath :: "Blockchain \<Rightarrow> Hash \<Rightarrow> Hash \<Rightarrow> (error + Hash list) option" where
  "getChainPath bc startHash endHash =
     (if IsZero startHash then Some (Inr [])
      else getChainPath_loop (headers bc) endHash startHash [])"

definition findCommonAncestor :: "Blockchain \<Rightarrow> Hash \<Rightarrow> Hash \<Rightarrow> (error + Hash) option" where
  "findCommonAncestor bc hashA hashB =
     (if IsZero hashA \<or> IsZero hashB then Some (Inr 0)
      else case getChainPath bc hashA 0 of
        None \<Rightarrow> None
      | Some (Inl e) \<Rightarrow> Some (Inl e)
      | Some (Inr pathA) \<Rightarrow>
          (case getChainPath bc hashB 0 of
             None \<Rightarrow> None
           | Some (Inl e) \<Rightarrow> Some (Inl e)
           | Some (Inr pathB) \<Rightarrow>
               (case find (\<lambda>hash. hash \<in> set pathA) pathB of
                  Some hash \<Rightarrow> Some (Inr hash)
                | None \<Rightarrow> Some (Inl NoCommonAncestor))))"

text \<open>The two loops of \<open>reorganizeChain\<close>, each over a list of block hashes.\<close>

fun rollbackBlocks :: "Externals \<Rightarrow> Hash list \<Rightarrow> Store \<Rightarrow> (error + unit) \<times> Store" where
  "rollbackBlocks X [] s = (Inr (), s)"
| "rollbackBlocks X (blockHash # rest) s =
     (case BlockStore_Get X s blockHash of
        Inl e \<Rightarrow> (Inl e, s)
      | Inr b \<Rightarrow>
          (case rollbackUTXOSet X s b of
             (Inl e, s') \<Rightarrow> (Inl e, s')
           | (Inr u, s') \<Rightarrow> rollbackBlocks X rest s'))"

fun applyBlocks :: "Externals \<Rightarrow> Hash list \<Rightarrow> Store \<Rightarrow> (error + unit) \<times> Store" where
  "applyBlocks X [] s = (Inr (), s)"
| "applyBlocks X (blockHash # rest) s =
     (case BlockStore_Get X s blockHash of
        Inl e \<Rightarrow> (Inl e, s)
      | Inr b \<Rightarrow>
          (case updateUTXOSet X s b of
             (Inl e, s') \<Rightarrow> (Inl e, s')
           | (Inr u, s') \<Rightarrow> applyBlocks X rest s'))"

definition reorganizeChain ::
  "Externals \<Rightarrow> Blockchain \<Rightarrow> Block \<Rightarrow> ((error + unit) \<times> Blockchain) option" where
  "reorganizeChain X bc newHeadBlock =
     (let newHeadHash = Block_Hash X newHeadBlock;
          oldHeadHash = (case head bc of Some tip \<Rightarrow> Header_Hash X tip | None \<Rightarrow> 0)
      in case findCommonAncestor bc oldHeadHash newHeadHash of
        None \<Rightarrow> None
      | Some (Inl e) \<Rightarrow> Some (Inl (AncestorError e), bc)
      | Some (Inr ancestorHash) \<Rightarrow>
          (case getChainPath bc oldHeadHash ancestorHash of
             None \<Rightarrow> None
           | Some (Inl e) \<Rightarrow> Some (Inl (RollbackPathError e), bc)
           | Some (Inr blocksToRollback) \<Rightarrow>
               (case getChainPath bc newHeadHash ancestorHash of
                  None \<Rightarrow> None
                | Some (Inl e) \<Rightarrow> Some (Inl (ApplyPathError e), bc)
                | Some (Inr blocksToApply) \<Rightarrow>
                    (case rollbackBlocks X blocksToRollback (store bc) of
                       (Inl e, s1) \<Rightarrow> Some (Inl e, bc\<lparr>store := s1\<rparr>)
                     | (Inr u, s1) \<Rightarrow>
                         (case applyBlocks X (rev blocksToApply) s1 of
                            (Inl e, s2) \<Rightarrow> Some (Inl e, bc\<lparr>store := s2\<rparr>)
                          | (Inr u, s2) \<Rightarrow>
                              (case Store_Put s2 headKey (hash_bytes newHeadHash) of
                                 (Inl e, s3) \<Rightarrow>
                                   Some (Inl (StoreError e),
                                         bc\<lparr>store := s3, head := Some (Header newHeadBlock)\<rparr>)
                               | (Inr u, s3) \<Rightarrow>
                                   Some (Inr (),
                                         bc\<lparr>store := s3,
                                            head := Some (Header newHeadBlock)\<rparr>)))))))"

subsection \<open>\<open>AddBlock\<close>\<close>

text \<open>
  The result is the returned error (or a panic) and the state of the chain manager,
  memory and store, after the call; \<open>None\<close> when the call does not return.
\<close>

definition AddBlock ::
  "Externals \<Rightarrow> Blockchain \<Rightarrow> Block \<Rightarrow> ((error + unit) \<times> Blockchain) option" where
  "AddBlock X bc b =
     (let blockHash = Block_Hash X b
      in if headers bc blockHash \<noteq> None then Some (Inr (), bc)
      else case ValidateBlock X bc b of
        (Inl e, bc1) \<Rightarrow> Some (Inl e, bc1)
      | (Inr u, bc1) \<Rightarrow>
          (case headers bc1 (PrevHash (Header b)) of
             None \<Rightarrow> Some (Inl NilDereference, bc1)
           | Some prevHeader \<Rightarrow>
               let work = Work (NewProofOfWork b)
               in (case CumulativeWork prevHeader of
                     None \<Rightarrow> Some (Inl NilDereference, bc1)
                   | Some prevWork \<Rightarrow>
                       let b' = b\<lparr>Header := (Header b)\<lparr>CumulativeWork := Some (prevWork + work)\<rparr>\<rparr>
                       in (case BlockStore_Put X (store bc1) b' of
                             (Inl e, s2) \<Rightarrow> Some (Inl e, bc1\<lparr>store := s2\<rparr>)
                           | (Inr u, s2) \<Rightarrow>
                               let bc2 = bc1\<lparr>store := s2,
                                            headers := (headers bc1)(blockHash \<mapsto> Header b')\<rparr>
                               in (case head bc2 of
                                     None \<Rightarrow> Some (Inl NilDereference, bc2)
                                   | Some tip \<Rightarrow>
                                       if PrevHash (Header b') = Header_Hash X tip then
                                         (case updateUTXOSet X (store bc2) b' of
                                            (Inl e, s3) \<Rightarrow> Some (Inl e, bc2\<lparr>store := s3\<rparr>)
                                          | (Inr u, s3) \<Rightarrow>
                                              (case Store_Put s3 headKey (hash_bytes blockHash) of
                                                 (Inl e, s4) \<Rightarrow>
                                                   Some (Inl (StoreError e),
                                                         bc2\<lparr>store := s4, head := Some (Header b')\<rparr>)
                                               | (Inr u, s4) \<Rightarrow>
                                                   Some (Inr (),
                                                         bc2\<lparr>store := s4, head := Some (Header b')\<rparr>)))
                                       else
                                         (case CumulativeWork tip of
                                            None \<Rightarrow> Some (Inl NilDereference, bc2)
                                          | Some headWork \<Rightarrow>
                                              if prevWork + work > headWork
                                              then reorganizeChain X bc2 b'
                                              else Some (Inr (), bc2)))))))"

section \<open>Genesis and construction (\<open>genesis.go\<close>, \<open>NewBlockchain\<close>)\<close>

text \<open>
  \<open>CreateGenesisBlock\<close>: the fixed header (timestamp 2024-01-01T00:00:00Z in seconds, EMA
  \<open>int64(15 * time.Second)\<close>, cumulative work 0), the Merkle root of the single coinbase
  transaction, then the nonce search.
\<close>

definition CreateGenesisBlock ::
  "Externals \<Rightarrow> Address \<Rightarrow> 64 word \<Rightarrow> 32 word \<Rightarrow> (error + Block) option" where
  "CreateGenesisBlock X coinbaseAddr initialSupply initialDifficulty =
     (let coinbaseTx =
            \<lparr>Inputs = [\<lparr>PrevTxHash = 0, PrevOutIndex = 0, PublicKey = [], Signature = []\<rparr>],
             Outputs = [\<lparr>Value = initialSupply, Address = coinbaseAddr\<rparr>]\<rparr>;
          header =
            \<lparr>Version = 1, PrevHash = 0, Height = 0, MerkleRoot = 0, Timestamp = 1704067200,
             Difficulty = initialDifficulty, Nonce = 0, EMABlockTime = 15000000000,
             CumulativeWork = Some 0\<rparr>
      in case NewMerkleTree X [coinbaseTx] of
        Inr (Some mTree) \<Rightarrow>
          let b = \<lparr>Header = header\<lparr>MerkleRoot := Data (RootNode mTree)\<rparr>,
                   Transactions = [coinbaseTx]\<rparr>
          in (case Run X (NewProofOfWork b) of
                None \<Rightarrow> None
              | Some (nonce, hash) \<Rightarrow> Some (Inr (b\<lparr>Header := (Header b)\<lparr>Nonce := nonce\<rparr>\<rparr>)))
      | _ \<Rightarrow> Some (Inl NilDereference))"

text \<open>\<open>copy(headHash[:], headHashBytes)\<close>: the first 32 bytes, zero-filled at the end.\<close>

definition be_nat :: "bytes \<Rightarrow> nat" where
  "be_nat bs = foldl (\<lambda>acc b. acc * 256 + unat b) 0 bs"

definition copy_hash :: "bytes \<Rightarrow> Hash" where
  "copy_hash bs = of_nat (be_nat (take 32 (bs @ replicate 32 0)))"

text \<open>
  \<open>NewBlockchain\<close>: the returned value, and beside it the store as the call leaves it,
  which outlives the call also when the constructor returns an error.
\<close>

definition NewBlockchain ::
  "Externals \<Rightarrow> Store \<Rightarrow> 32 word \<Rightarrow> ((error + Blockchain) \<times> Store) option" where
  "NewBlockchain X s initialDifficulty =
     (let bc = \<lparr>store = s, headers = Map.empty, head = None\<rparr>
      in case Store_Get s headKey of
        Inl err \<Rightarrow>
          (case CreateGenesisBlock X 0 1000 initialDifficulty of
             None \<Rightarrow> None
           | Some (Inl e) \<Rightarrow> Some (Inl e, s)
           | Some (Inr genesis) \<Rightarrow>
               let blockHash = Block_Hash X genesis;
                   bc1 = bc\<lparr>headers := (headers bc)(blockHash \<mapsto> Header genesis),
                            head := Some (Header genesis)\<rparr>
               in (case BlockStore_Put X s genesis of
                     (Inl e, s1) \<Rightarrow> Some (Inl e, s1)
                   | (Inr u, s1) \<Rightarrow>
                       (case updateUTXOSet X s1 genesis of
                          (Inl e, s2) \<Rightarrow> Some (Inl e, s2)
                        | (Inr u, s2) \<Rightarrow>
                            (case Store_Put s2 headKey (hash_bytes blockHash) of
                               (Inl e, s3) \<Rightarrow> Some (Inl (StoreError e), s3)
                             | (Inr u, s3) \<Rightarrow> Some (Inr (bc1\<lparr>store := s3\<rparr>), s3)))))
      | Inr headHashBytes \<Rightarrow>
          let headHash = copy_hash headHashBytes
          in (case BlockStore_GetHeader X s headHash of
                Inl e \<Rightarrow> Some (Inl e, s)
              | Inr headHeader \<Rightarrow> Some (Inr (bc\<lparr>head := Some headHeader\<rparr>), s)))"

text \<open>
  The inputs on which no intermediate value of the controller leaves its machine type:
  the time difference, the two products and their sum fit in an \<open>int64\<close>, and the
  difficulty is not the largest \<open>uint32\<close>.
\<close>

definition no_overflow :: "Header \<Rightarrow> 64 word \<Rightarrow> bool" where
  "no_overflow parent t =
     (Height parent \<noteq> 0 \<longrightarrow>
       (let actual = sint t - sint (Timestamp parent)
        in in_int64 actual \<and> in_int64 (95 * actual)
           \<and> in_int64 (905 * sint (EMABlockTime parent))
           \<and> in_int64 (95 * actual + 905 * sint (EMABlockTime parent))
           \<and> Difficulty parent \<noteq> - 1))"

definition overflow_parent :: Header where
  "overflow_parent =
     \<lparr>Version = 1, PrevHash = 0, Height = 1, MerkleRoot = 0, Timestamp = 0, Difficulty = 10,
      Nonce = 0, EMABlockTime = 0, CumulativeWork = None\<rparr>"

definition steady_parent :: Header where
  "steady_parent =
     \<lparr>Version = 1, PrevHash = 0, Height = 1, MerkleRoot = 0, Timestamp = 1000, Difficulty = 10,
      Nonce = 0, EMABlockTime = 15000000000, CumulativeWork = None\<rparr>"

section \<open>A small instance of the external primitives\<close>

text \<open>
  Concrete stand-ins for the external primitives, on which the model runs by
  simplification: a digest that adds the length of the message to its big-endian value,
  a signature scheme in which the signature of a message is the message, encoders that
  write the low bytes of a few fields, and decoders that invert the encoders on the
  blocks, outputs and undo records of the examples below and fail on other bytes.
\<close>

definition low_byte :: "'a::len word \<Rightarrow> byte" where
  "low_byte w = of_nat (unat w mod 256)"

definition toy_Keccak256 :: "bytes \<Rightarrow> Hash" where
  "toy_Keccak256 bs = of_nat (be_nat bs) + of_nat (length bs)"

definition toy_Verify :: "bytes \<Rightarrow> bytes \<Rightarrow> bytes \<Rightarrow> bool" where
  "toy_Verify publicKey message signature = (signature = message)"

definition toy_gobHeader :: "Header \<Rightarrow> bytes" where
  "toy_gobHeader h =
     [low_byte (PrevHash h), low_byte (Height h), low_byte (MerkleRoot h), low_byte (Nonce h)]"

definition toy_gobTransaction :: "Transaction \<Rightarrow> bytes" where
  "toy_gobTransaction tx =
     map (\<lambda>input. low_byte (PrevTxHash input + ucast (PrevOutIndex input))) (Inputs tx)
     @ map (\<lambda>output. low_byte (Value output)) (Outputs tx)"

definition toy_gobBlock :: "Block \<Rightarrow> bytes" where
  "toy_gobBlock b = toy_gobHeader (Header b) @ concat (map toy_gobTransaction (Transactions b))"

definition toy_gobTxOutput :: "TxOutput \<Rightarrow> bytes" where
  "toy_gobTxOutput output = [low_byte (Value output)]"

definition toy_gobBlockUndo :: "BlockUndo \<Rightarrow> bytes" where
  "toy_gobBlockUndo undo = map (\<lambda>spent. low_byte (TxHash spent)) (SpentUTXOs undo)"

text \<open>The genesis block that \<open>CreateGenesisBlock\<close> builds at difficulty 1 on this instance.\<close>

definition genesis_coinbase :: Transaction where
  "genesis_coinbase =
     \<lparr>Inputs = [\<lparr>PrevTxHash = 0, PrevOutIndex = 0, PublicKey = [], Signature = []\<rparr>],
      Outputs = [\<lparr>Value = 1000, Address = 0\<rparr>]\<rparr>"

definition toy_genesis :: Block where
  "toy_genesis =
     \<lparr>Header = \<lparr>Version = 1, PrevHash = 0, Height = 0, MerkleRoot = 266,
                 Timestamp = 1704067200, Difficulty = 1, Nonce = 0,
                 EMABlockTime = 15000000000, CumulativeWork = Some 0\<rparr>,
      Transactions = [genesis_coinbase]\<rparr>"

definition toy_ungobBlock :: "bytes \<Rightarrow> Block option" where
  "toy_ungobBlock data = find (\<lambda>b. toy_gobBlock b = data) [toy_genesis]"

definition toy_ungobTxOutput :: "bytes \<Rightarrow> TxOutput option" where
  "toy_ungobTxOutput data =
     find (\<lambda>output. toy_gobTxOutput output = data) [\<lparr>Value = 1000, Address = 0\<rparr>]"

definition toy_ungobBlockUndo :: "bytes \<Rightarrow> BlockUndo option" where
  "toy_ungobBlockUndo data = find (\<lambda>undo. toy_gobBlockUndo undo = data) [\<lparr>SpentUTXOs = []\<rparr>]"

definition toyX :: Externals where
  "toyX = \<lparr>Keccak256 = toy_Keccak256, Ed25519Verify = toy_Verify, gobHeader = toy_gobHeader,
            gobTransaction = toy_gobTransaction, gobBlock = toy_gobBlock,
            ungobBlock = toy_ungobBlock, gobTxOutput = toy_gobTxOutput,
            ungobTxOutput = toy_ungobTxOutput, gobBlockUndo = toy_gobBlockUndo,
            ungobBlockUndo = toy_ungobBlockUndo\<rparr>"

subsection \<open>The chain after construction on an empty store\<close>


definition genesis_cells :: "bytes \<rightharpoonup> bytes" where
  "genesis_cells =
     [hash_bytes 2564 \<mapsto> toy_gobBlock toy_genesis,
      getUTXOKey 234 0 \<mapsto> [232],
      getUndoKey 2564 \<mapsto> [],
      headKey \<mapsto> hash_bytes 2564]"

definition genesis_chain :: Blockchain where
  "genesis_chain =
     \<lparr>store = \<lparr>cells = genesis_cells, read_fault = (\<lambda>key. False),
                write_fault = (\<lambda>key. False)\<rparr>,
      headers = [2564 \<mapsto> Header toy_genesis],
      head = Some (Header toy_genesis)\<rparr>"

text \<open>The same store opened again: the constructor loads the head and leaves the index empty.\<close>

definition restart_chain :: Blockchain where
  "restart_chain = genesis_chain\<lparr>headers := Map.empty\<rparr>"

subsection \<open>A block that spends one output twice\<close>

definition miner_coinbase :: Transaction where
  "miner_coinbase =
     \<lparr>Inputs = [\<lparr>PrevTxHash = 0, PrevOutIndex = 0, PublicKey = [], Signature = []\<rparr>],
      Outputs = [\<lparr>Value = 50, Address = 0\<rparr>]\<rparr>"

definition double_spend_input :: TxInput where
  "double_spend_input =
     \<lparr>PrevTxHash = 234, PrevOutIndex = 0, PublicKey = replicate 32 1,
      Signature = hash_bytes 15395563\<rparr>"

definition double_spend_tx :: Transaction where
  "double_spend_tx =
     \<lparr>Inputs = [double_spend_input, double_spend_input],
      Outputs = [\<lparr>Value = 1000, Address = 1\<rparr>]\<rparr>"

definition double_spend_block :: Block where
  "double_spend_block =
     \<lparr>Header = \<lparr>Version = 1, PrevHash = 2564, Height = 1, MerkleRoot = 15395659,
                 Timestamp = 1704067215, Difficulty = 1, Nonce = 0,
                 EMABlockTime = 15000000000, CumulativeWork = None\<rparr>,
      Transactions = [miner_coinbase, double_spend_tx]\<rparr>"

definition double_spend_stored :: Block where
  "double_spend_stored =
     double_spend_block\<lparr>Header := (Header double_spend_block)\<lparr>CumulativeWork := Some 1\<rparr>\<rparr>"

definition double_spend_state :: Blockchain where
  "double_spend_state =
     \<lparr>store = \<lparr>cells = (genesis_cells(hash_bytes 67193604 \<mapsto> toy_gobBlock double_spend_stored))
                             (getUTXOKey 234 0 := None),
                read_fault = (\<lambda>key. False), write_fault = (\<lambda>key. False)\<rparr>,
      headers = [2564 \<mapsto> Header toy_genesis, 67193604 \<mapsto> Header double_spend_stored],
      head = Some (Header toy_genesis)\<rparr>"

subsection \<open>A block whose coinbase is the genesis coinbase again\<close>

definition remint_block :: Block where
  "remint_block =
     \<lparr>Header = \<lparr>Version = 1, PrevHash = 2564, Height = 1, MerkleRoot = 266,
                 Timestamp = 1704067215, Difficulty = 1, Nonce = 0,
                 EMABlockTime = 15000000000, CumulativeWork = None\<rparr>,
      Transactions = [genesis_coinbase]\<rparr>"

definition remint_stored :: Block where
  "remint_stored = remint_block\<lparr>Header := (Header remint_block)\<lparr>CumulativeWork := Some 1\<rparr>\<rparr>"

definition remint_cells :: "bytes \<rightharpoonup> bytes" where
  "remint_cells =
     genesis_cells(hash_bytes 67176964 \<mapsto> toy_gobBlock remint_stored,
                   getUTXOKey 234 0 \<mapsto> [232],
                   getUndoKey 67176964 \<mapsto> [],
                   headKey \<mapsto> hash_bytes 67176964)"

definition remint_state :: Blockchain where
  "remint_state =
     \<lparr>store = \<lparr>cells = remint_cells, read_fault = (\<lambda>key. False),
                write_fault = (\<lambda>key. False)\<rparr>,
      headers = [2564 \<mapsto> Header toy_genesis, 67176964 \<mapsto> Header remint_stored],
      head = Some (Header remint_stored)\<rparr>"

definition remint_rolled_back :: Store where
  "remint_rolled_back =
     \<lparr>cells = remint_cells(getUTXOKey 234 0 := None, getUndoKey 67176964 := None),
      read_fault = (\<lambda>key. False), write_fault = (\<lambda>key. False)\<rparr>"

subsection \<open>A second block at height 1, a block at a wrong height, a block with no transaction\<close>




definition wrong_height_block :: Block where
  "wrong_height_block =
     \<lparr>Header = \<lparr>Version = 1, PrevHash = 2564, Height = 5, MerkleRoot = 84,
                 Timestamp = 1704067215, Difficulty = 1, Nonce = 0,
                 EMABlockTime = 15000000000, CumulativeWork = None\<rparr>,
      Transactions = [miner_coinbase]\<rparr>"

definition empty_block :: Block where
  "empty_block = \<lparr>Header = Header toy_genesis, Transactions = []\<rparr>"

subsection \<open>A store whose tip marker cannot be read\<close>



subsection \<open>A chain at difficulty 0 and a block that extends its tip\<close>







section \<open>Notation for the Merkle claims\<close>

text \<open>
  The root hash as the callers read it, \<open>mTree.RootNode.Data\<close>; the hash of a leaf,
  Keccak-256 of the bytes of the transaction hash; the hash of an inner node,
  Keccak-256 of the two children's hashes joined.
\<close>

definition merkle_root :: "Externals \<Rightarrow> Transaction list \<Rightarrow> Hash option" where
  "merkle_root X txs =
     (case NewMerkleTree X txs of Inr (Some mTree) \<Rightarrow> Some (Data (RootNode mTree)) | _ \<Rightarrow> None)"

definition leaf_hash :: "Externals \<Rightarrow> Transaction \<Rightarrow> Hash" where
  "leaf_hash X tx = Keccak256 X (hash_bytes (Transaction_Hash X tx))"

definition node_hash :: "Externals \<Rightarrow> Hash \<Rightarrow> Hash \<Rightarrow> Hash" where
  "node_hash X l r = Keccak256 X (hash_bytes l @ hash_bytes r)"

section \<open>Tip maximality\<close>



section \<open>The store after the constructor has built genesis\<close>


subsection \<open>Applying and rolling back the re-minting block on the genesis store\<close>

definition remint_applied :: Store where
  "remint_applied =
     \<lparr>cells = genesis_cells(getUTXOKey 234 0 \<mapsto> [232], getUndoKey 67176964 \<mapsto> []),
      read_fault = (\<lambda>key. False), write_fault = (\<lambda>key. False)\<rparr>"

definition remint_undone :: Store where
  "remint_undone =
     \<lparr>cells = genesis_cells(getUTXOKey 234 0 \<mapsto> [232], getUndoKey 67176964 \<mapsto> [],
                             getUTXOKey 234 0 := None, getUndoKey 67176964 := None),
      read_fault = (\<lambda>key. False), write_fault = (\<lambda>key. False)\<rparr>"

section \<open>Bytes and keys\<close>

lemma length_be_bytes: "length (be_bytes n x) = n"
  by (induction n arbitrary: x) simp_all

lemma be_nat_snoc: "be_nat (bs @ [b]) = be_nat bs * 256 + unat b"
  by (simp add: be_nat_def)

lemma be_nat_append: "be_nat (xs @ ys) = be_nat xs * 256 ^ length ys + be_nat ys"
proof (induction ys rule: rev_induct)
  case Nil
  then show ?case by (simp add: be_nat_def)
next
  case (snoc y ys)
  have "be_nat (xs @ ys @ [y]) = be_nat ((xs @ ys) @ [y])" by simp
  also have "\<dots> = be_nat (xs @ ys) * 256 + unat y" by (rule be_nat_snoc)
  finally show ?case by (simp add: snoc.IH be_nat_snoc algebra_simps)
qed

lemma unat_byte_of_nat: "unat (of_nat (x mod 256) :: byte) = x mod 256"
  by (simp add: unat_of_nat)

lemma be_nat_be_bytes: "be_nat (be_bytes n x) = x mod 256 ^ n"
proof (induction n arbitrary: x)
  case 0
  then show ?case by (simp add: be_nat_def)
next
  case (Suc n)
  have "be_nat (be_bytes (Suc n) x) = (x div 256 mod 256 ^ n) * 256 + x mod 256"
    by (simp add: be_nat_snoc Suc.IH unat_byte_of_nat del: of_nat_mod)
  also have "\<dots> = x mod 256 ^ Suc n"
    by (simp add: mod_mult2_eq)
  finally show ?case .
qed

lemma be_nat_hash_bytes: "be_nat (hash_bytes h) = unat h"
proof -
  have "unat h < 2 ^ 256" using unsigned_less [of h] by simp
  then have "unat h < 256 ^ 32" by simp
  then show ?thesis by (simp add: hash_bytes_def be_nat_be_bytes)
qed

lemma length_hash_bytes: "length (hash_bytes h) = 32"
  by (simp add: hash_bytes_def length_be_bytes)

lemma length_be32: "length (be32 i) = 4"
  by (simp add: be32_def length_be_bytes)

lemma hash_bytes_inj: "(hash_bytes a = hash_bytes b) = (a = b)"
proof
  assume "hash_bytes a = hash_bytes b"
  then have "be_nat (hash_bytes a) = be_nat (hash_bytes b)" by simp
  then have "unat a = unat b" by (simp add: be_nat_hash_bytes)
  then show "a = b" by (simp add: word_unat_eq_iff)
qed simp




lemma getUndoKey_inj: "(getUndoKey h = getUndoKey h') = (h = h')"
  by (simp add: getUndoKey_def hash_bytes_inj)

lemma length_getUTXOKey: "length (getUTXOKey h i) = 37"
  by (simp add: getUTXOKey_def utxoKeyPrefix_def length_hash_bytes length_be32)

lemma length_getUndoKey: "length (getUndoKey h) = 33"
  by (simp add: getUndoKey_def undoKeyPrefix_def length_hash_bytes)

lemma length_headKey: "length headKey = 4"
  by (simp add: headKey_def)

lemma key_namespaces:
  "getUTXOKey h i \<noteq> getUndoKey h'" "getUndoKey h' \<noteq> getUTXOKey h i"
  "getUTXOKey h i \<noteq> hash_bytes h'" "hash_bytes h' \<noteq> getUTXOKey h i"
  "getUTXOKey h i \<noteq> headKey" "headKey \<noteq> getUTXOKey h i"
  "getUndoKey h \<noteq> hash_bytes h'" "hash_bytes h' \<noteq> getUndoKey h"
  "getUndoKey h \<noteq> headKey" "headKey \<noteq> getUndoKey h"
  "hash_bytes h \<noteq> headKey" "headKey \<noteq> hash_bytes h"
  by (auto dest!: arg_cong [where f = length]
      simp: length_getUTXOKey length_getUndoKey length_hash_bytes length_headKey)

lemma copy_hash_hash_bytes: "copy_hash (hash_bytes h) = h"
  by (simp add: copy_hash_def length_hash_bytes be_nat_hash_bytes)

section \<open>Runs on the small instance\<close>

lemma toy_Keccak256_hash_bytes: "toy_Keccak256 (hash_bytes h) = h + 32"
  by (simp add: toy_Keccak256_def be_nat_hash_bytes length_hash_bytes)

lemma toy_Keccak256_pair: "toy_Keccak256 (hash_bytes l @ hash_bytes r) = r + 64"
proof -
  have z: "(of_nat (256 ^ 32) :: Hash) = 0" by simp
  have "be_nat (hash_bytes l @ hash_bytes r) = unat l * 256 ^ 32 + unat r"
    by (simp only: be_nat_append be_nat_hash_bytes length_hash_bytes)
  then have "(of_nat (be_nat (hash_bytes l @ hash_bytes r)) :: Hash)
             = of_nat (unat l) * of_nat (256 ^ 32) + of_nat (unat r)"
    by (simp only: of_nat_add of_nat_mult)
  then have "(of_nat (be_nat (hash_bytes l @ hash_bytes r)) :: Hash) = r"
    by (simp only: z) simp
  then show ?thesis
    by (simp add: toy_Keccak256_def length_hash_bytes)
qed

lemma toyX_simps:
  "Keccak256 toyX = toy_Keccak256" "Ed25519Verify toyX = toy_Verify"
  "gobHeader toyX = toy_gobHeader" "gobTransaction toyX = toy_gobTransaction"
  "gobBlock toyX = toy_gobBlock" "ungobBlock toyX = toy_ungobBlock"
  "gobTxOutput toyX = toy_gobTxOutput" "ungobTxOutput toyX = toy_ungobTxOutput"
  "gobBlockUndo toyX = toy_gobBlockUndo" "ungobBlockUndo toyX = toy_ungobBlockUndo"
  by (simp_all add: toyX_def)

lemma gcb_hash: "Transaction_Hash toyX genesis_coinbase = 234"
  by (simp add: Transaction_Hash_def toyX_simps genesis_coinbase_def toy_gobTransaction_def toy_Keccak256_def be_nat_def low_byte_def)

lemma gcb_is_coinbase: "IsCoinbase genesis_coinbase"
  by (simp add: IsCoinbase_def genesis_coinbase_def IsZero_def)

lemma merkle_single: "NewMerkleTree toyX [genesis_coinbase] = Inr (Some \<lparr>RootNode = MerkleNode None None 266\<rparr>)"
  by (simp add: NewMerkleTree_def NewMerkleNode_def gcb_hash toyX_simps toy_Keccak256_hash_bytes)

lemma genesis_hash: "Header_Hash toyX (Header toy_genesis) = 2564"
  by (simp add: Header_Hash_def EncodeForHashing_def toyX_simps toy_genesis_def toy_gobHeader_def toy_Keccak256_def be_nat_def low_byte_def)





lemma genesis_coinbase_fields:
  "Outputs genesis_coinbase = [\<lparr>Value = 1000, Address = 0\<rparr>]"
  "Inputs genesis_coinbase = [\<lparr>PrevTxHash = 0, PrevOutIndex = 0, PublicKey = [], Signature = []\<rparr>]"
  by (simp_all add: genesis_coinbase_def)



lemma miner_coinbase_hash: "Transaction_Hash toyX miner_coinbase = 52"
  by (simp add: Transaction_Hash_def toyX_simps miner_coinbase_def toy_gobTransaction_def
      toy_Keccak256_def be_nat_def low_byte_def)

lemma double_spend_tx_hash: "Transaction_Hash toyX double_spend_tx = 15395563"
  by (simp add: Transaction_Hash_def toyX_simps double_spend_tx_def double_spend_input_def
      toy_gobTransaction_def toy_Keccak256_def be_nat_def low_byte_def)

lemma double_spend_merkle:
  "NewMerkleTree toyX [miner_coinbase, double_spend_tx]
   = Inr (Some \<lparr>RootNode = MerkleNode (Some (MerkleNode None None 84))
                                       (Some (MerkleNode None None 15395595)) 15395659\<rparr>)"
  by (simp add: NewMerkleTree_def NewMerkleNode_def miner_coinbase_hash double_spend_tx_hash
      toyX_simps toy_Keccak256_hash_bytes toy_Keccak256_pair)

lemma double_spend_block_hash: "Block_Hash toyX double_spend_block = 67193604"
  by (simp add: Block_Hash_def Header_Hash_def EncodeForHashing_def toyX_simps
      double_spend_block_def toy_gobHeader_def toy_Keccak256_def be_nat_def low_byte_def)

lemma double_spend_block_fields:
  "Transactions double_spend_block = [miner_coinbase, double_spend_tx]"
  "PrevHash (Header double_spend_block) = 2564"
  "Height (Header double_spend_block) = 1"
  "MerkleRoot (Header double_spend_block) = 15395659"
  "Timestamp (Header double_spend_block) = 1704067215"
  "Difficulty (Header double_spend_block) = 1"
  "EMABlockTime (Header double_spend_block) = 15000000000"
  by (simp_all add: double_spend_block_def)

lemma genesis_header_fields:
  "Height (Header toy_genesis) = 0"
  "Difficulty (Header toy_genesis) = 1"
  "EMABlockTime (Header toy_genesis) = 15000000000"
  "CumulativeWork (Header toy_genesis) = Some 0"
  by (simp_all add: toy_genesis_def)

lemma miner_coinbase_is_coinbase: "IsCoinbase miner_coinbase"
  by (simp add: IsCoinbase_def miner_coinbase_def IsZero_def)

lemma double_spend_not_coinbase: "\<not> IsCoinbase double_spend_tx"
  by (simp add: IsCoinbase_def double_spend_tx_def)

lemma double_spend_pow: "checkProofOfWork toyX double_spend_block = Inr ()"
  using double_spend_block_hash
  by (simp add: checkProofOfWork_def Validate_def NewProofOfWork_def Block_Hash_def
      Header_Hash_def double_spend_block_fields)

lemma double_spend_tx_fields:
  "Inputs double_spend_tx = [double_spend_input, double_spend_input]"
  "Outputs double_spend_tx = [\<lparr>Value = 1000, Address = 1\<rparr>]"
  by (simp_all add: double_spend_tx_def)

lemma double_spend_input_fields:
  "PrevTxHash double_spend_input = 234"
  "PrevOutIndex double_spend_input = 0"
  "PublicKey double_spend_input = replicate 32 1"
  "Signature double_spend_input = hash_bytes 15395563"
  by (simp_all add: double_spend_input_def)

lemma genesis_chain_fields:
  "store genesis_chain
   = \<lparr>cells = genesis_cells, read_fault = (\<lambda>key. False), write_fault = (\<lambda>key. False)\<rparr>"
  "headers genesis_chain = [2564 \<mapsto> Header toy_genesis]"
  "head genesis_chain = Some (Header toy_genesis)"
  by (simp_all add: genesis_chain_def)

lemma genesis_cells_utxo: "genesis_cells (getUTXOKey 234 0) = Some [232]"
  by (simp add: genesis_cells_def key_namespaces)

lemma double_spend_verify: "Verify toyX double_spend_tx = Inr True"
  by (simp add: Verify_def double_spend_not_coinbase double_spend_tx_hash toyX_simps
      toy_Verify_def double_spend_tx_fields double_spend_input_fields)

lemma double_spend_tx_valid: "ValidateTransaction toyX genesis_chain double_spend_tx = Inr True"
  by (simp add: ValidateTransaction_def double_spend_not_coinbase double_spend_verify
      double_spend_tx_fields double_spend_input_fields HasUTXO_def Store_Has_def
      genesis_chain_fields genesis_cells_utxo)

lemma double_spend_parent:
  "checkAgainstParent (Header toy_genesis) double_spend_block = Inr ()"
  by (simp add: checkAgainstParent_def CalculateNextDifficulty_def
      double_spend_block_fields genesis_header_fields)

lemma double_spend_valid:
  "ValidateBlock toyX genesis_chain double_spend_block = (Inr (), genesis_chain)"
proof -
  have "checkParent toyX genesis_chain double_spend_block = (Inr (), genesis_chain)"
    by (simp add: checkParent_def double_spend_parent double_spend_block_fields
        genesis_chain_fields)
  moreover have "checkMerkleRoot toyX double_spend_block = Inr ()"
    by (simp add: checkMerkleRoot_def double_spend_block_fields double_spend_merkle)
  moreover have "checkTransactions toyX genesis_chain (Transactions double_spend_block) = Inr ()"
    by (simp add: double_spend_block_fields miner_coinbase_is_coinbase double_spend_not_coinbase
        double_spend_tx_valid)
  ultimately show ?thesis
    by (simp add: ValidateBlock_def double_spend_pow)
qed

lemma double_spend_work: "Work (NewProofOfWork double_spend_block) = 1"
  by (simp add: Work_def NewProofOfWork_def double_spend_block_fields)

lemma double_spend_stored_fields:
  "Transactions double_spend_stored = [miner_coinbase, double_spend_tx]"
  "PrevHash (Header double_spend_stored) = 2564"
  by (simp_all add: double_spend_stored_def double_spend_block_def)

lemma double_spend_stored_hash: "Block_Hash toyX double_spend_stored = 67193604"
  using double_spend_block_hash
  by (simp add: double_spend_stored_def Block_Hash_def Header_Hash_def EncodeForHashing_def)

lemma double_spend_apply:
  "updateUTXOSet toyX
     \<lparr>cells = genesis_cells(hash_bytes 67193604 \<mapsto> toy_gobBlock double_spend_stored),
      read_fault = (\<lambda>key. False), write_fault = (\<lambda>key. False)\<rparr> double_spend_stored
   = (Inl UTXONotFound, store double_spend_state)"
  by (simp add: updateUTXOSet_def double_spend_stored_fields miner_coinbase_is_coinbase
      double_spend_not_coinbase double_spend_tx_fields double_spend_input_fields
      GetUTXO_def Store_Get_def Store_Delete_def genesis_cells_utxo key_namespaces
      toyX_simps toy_ungobTxOutput_def toy_gobTxOutput_def low_byte_def double_spend_state_def)

lemma double_spend_run:
  "AddBlock toyX genesis_chain double_spend_block = Some (Inl UTXONotFound, double_spend_state)"
  using double_spend_apply
  apply (simp add: AddBlock_def double_spend_block_hash double_spend_valid genesis_chain_fields
      double_spend_block_fields genesis_header_fields double_spend_work
      double_spend_stored_def [symmetric] BlockStore_Put_def Store_Put_def
      double_spend_stored_hash toyX_simps double_spend_stored_fields genesis_hash
      double_spend_state_def)
  apply (simp add: genesis_chain_def double_spend_stored_def)
  done

lemma remint_block_hash: "Block_Hash toyX remint_block = 67176964"
  by (simp add: Block_Hash_def Header_Hash_def EncodeForHashing_def toyX_simps
      remint_block_def toy_gobHeader_def toy_Keccak256_def be_nat_def low_byte_def)

lemma remint_block_fields:
  "Transactions remint_block = [genesis_coinbase]"
  "PrevHash (Header remint_block) = 2564"
  "Height (Header remint_block) = 1"
  "MerkleRoot (Header remint_block) = 266"
  "Timestamp (Header remint_block) = 1704067215"
  "Difficulty (Header remint_block) = 1"
  "EMABlockTime (Header remint_block) = 15000000000"
  by (simp_all add: remint_block_def)

lemma remint_stored_fields:
  "Transactions remint_stored = [genesis_coinbase]"
  "PrevHash (Header remint_stored) = 2564"
  "CumulativeWork (Header remint_stored) = Some 1"
  by (simp_all add: remint_stored_def remint_block_def)

lemma remint_stored_hash: "Block_Hash toyX remint_stored = 67176964"
  using remint_block_hash
  by (simp add: remint_stored_def Block_Hash_def Header_Hash_def EncodeForHashing_def)

lemma remint_pow: "checkProofOfWork toyX remint_block = Inr ()"
  using remint_block_hash
  by (simp add: checkProofOfWork_def Validate_def NewProofOfWork_def Block_Hash_def
      Header_Hash_def remint_block_fields)

lemma remint_parent: "checkAgainstParent (Header toy_genesis) remint_block = Inr ()"
  by (simp add: checkAgainstParent_def CalculateNextDifficulty_def
      remint_block_fields genesis_header_fields)

lemma remint_merkle: "checkMerkleRoot toyX remint_block = Inr ()"
  by (simp add: checkMerkleRoot_def remint_block_fields merkle_single)

lemma remint_valid: "ValidateBlock toyX genesis_chain remint_block = (Inr (), genesis_chain)"
proof -
  have "checkParent toyX genesis_chain remint_block = (Inr (), genesis_chain)"
    by (simp add: checkParent_def remint_parent remint_block_fields genesis_chain_fields)
  moreover have "checkTransactions toyX genesis_chain (Transactions remint_block) = Inr ()"
    by (simp add: remint_block_fields gcb_is_coinbase)
  ultimately show ?thesis
    by (simp add: ValidateBlock_def remint_pow remint_merkle)
qed

lemma remint_work: "Work (NewProofOfWork remint_block) = 1"
  by (simp add: Work_def NewProofOfWork_def remint_block_fields)

lemma remint_apply:
  "updateUTXOSet toyX
     \<lparr>cells = genesis_cells(hash_bytes 67176964 \<mapsto> toy_gobBlock remint_stored),
      read_fault = (\<lambda>key. False), write_fault = (\<lambda>key. False)\<rparr> remint_stored
   = (Inr (),
      \<lparr>cells = genesis_cells(hash_bytes 67176964 \<mapsto> toy_gobBlock remint_stored,
                 getUTXOKey 234 0 \<mapsto> [232], getUndoKey 67176964 \<mapsto> []),
       read_fault = (\<lambda>key. False), write_fault = (\<lambda>key. False)\<rparr>)"
  by (simp add: updateUTXOSet_def remint_stored_fields gcb_is_coinbase gcb_hash
      genesis_coinbase_fields Store_Put_def toyX_simps toy_gobTxOutput_def toy_gobBlockUndo_def
      remint_stored_hash low_byte_def)

lemma remint_run:
  "AddBlock toyX genesis_chain remint_block = Some (Inr (), remint_state)"
  using remint_apply
  apply (simp add: AddBlock_def remint_block_hash remint_valid genesis_chain_fields
      remint_block_fields genesis_header_fields remint_work
      remint_stored_def [symmetric] BlockStore_Put_def Store_Put_def
      remint_stored_hash toyX_simps remint_stored_fields genesis_hash)
  apply (simp add: genesis_chain_def remint_stored_def remint_state_def remint_cells_def)
  done

lemma remint_state_fields:
  "store remint_state
   = \<lparr>cells = remint_cells, read_fault = (\<lambda>key. False), write_fault = (\<lambda>key. False)\<rparr>"
  "headers remint_state = [2564 \<mapsto> Header toy_genesis, 67176964 \<mapsto> Header remint_stored]"
  "head remint_state = Some (Header remint_stored)"
  by (simp_all add: remint_state_def)

lemma remint_cells_undo: "remint_cells (getUndoKey 67176964) = Some []"
  by (simp add: remint_cells_def key_namespaces)

lemma remint_rollback:
  "rollbackUTXOSet toyX (store remint_state) remint_stored = (Inr (), remint_rolled_back)"
  by (simp add: rollbackUTXOSet_def remint_stored_hash remint_state_fields Store_Get_def
      remint_cells_undo toyX_simps toy_ungobBlockUndo_def toy_gobBlockUndo_def
      remint_stored_fields gcb_hash genesis_coinbase_fields Store_Delete_def
      remint_rolled_back_def)











lemma genesis_cells_block: "genesis_cells (hash_bytes 2564) = Some (toy_gobBlock toy_genesis)"
  by (simp add: genesis_cells_def key_namespaces)

lemma genesis_cells_head: "genesis_cells headKey = Some (hash_bytes 2564)"
  by (simp add: genesis_cells_def)

lemma genesis_stored_header:
  "BlockStore_GetHeader toyX (store genesis_chain) 2564 = Inr (Header toy_genesis)"
  by (simp add: BlockStore_GetHeader_def BlockStore_Get_def Store_Get_def genesis_chain_fields
      genesis_cells_block toyX_simps toy_ungobBlock_def)

lemma restart_run:
  "NewBlockchain toyX (store genesis_chain) 1 = Some (Inr restart_chain, store genesis_chain)"
  using genesis_stored_header
  by (simp add: NewBlockchain_def Store_Get_def genesis_chain_fields genesis_cells_head
      copy_hash_hash_bytes restart_chain_def genesis_chain_def)

lemma restart_chain_fields:
  "store restart_chain = store genesis_chain"
  "headers restart_chain = Map.empty"
  "head restart_chain = Some (Header toy_genesis)"
  by (simp_all add: restart_chain_def genesis_chain_def)

lemma restart_validate:
  "ValidateBlock toyX restart_chain remint_block = (Inr (), genesis_chain)"
proof -
  have "checkParent toyX restart_chain remint_block = (Inr (), genesis_chain)"
    by (simp add: checkParent_def remint_parent remint_block_fields restart_chain_fields
        genesis_stored_header)
       (simp add: restart_chain_def genesis_chain_def)
  moreover have "checkTransactions toyX genesis_chain (Transactions remint_block) = Inr ()"
    by (simp add: remint_block_fields gcb_is_coinbase)
  ultimately show ?thesis
    by (simp add: ValidateBlock_def remint_pow remint_merkle)
qed


lemma wrong_height_block_hash: "Block_Hash toyX wrong_height_block = 67458052"
  by (simp add: Block_Hash_def Header_Hash_def EncodeForHashing_def toyX_simps
      wrong_height_block_def toy_gobHeader_def toy_Keccak256_def be_nat_def low_byte_def)

lemma wrong_height_rejected:
  "ValidateBlock toyX genesis_chain wrong_height_block = (Inl InvalidHeight, genesis_chain)"
  by (simp add: ValidateBlock_def checkParent_def checkAgainstParent_def genesis_chain_fields
      genesis_header_fields wrong_height_block_def)

lemma empty_block_checks:
  "checkParent toyX genesis_chain empty_block = (Inr (), genesis_chain)"
  "checkProofOfWork toyX empty_block = Inr ()"
  using genesis_hash
  by (simp_all add: checkParent_def checkProofOfWork_def Validate_def NewProofOfWork_def
      Header_Hash_def empty_block_def genesis_header_fields IsZero_def toy_genesis_def)
















section \<open>Merkle root of a single transaction\<close>

text \<open>
  C5 (as amended). For a block with exactly one transaction the Merkle root is the lone
  leaf itself, Keccak-256 of the bytes of the transaction hash: the tree is a single node
  without children, and nothing is duplicated. The duplicate-last-node rule applies at
  levels of more than one node: with three transactions the third leaf is paired with
  itself; with two, the root is the hash of the two leaves.
\<close>

theorem NewMerkleTree_single_leaf:
  "NewMerkleTree X [tx] = Inr (Some \<lparr>RootNode = MerkleNode None None (leaf_hash X tx)\<rparr>)
   \<and> merkle_root X [tx] = Some (leaf_hash X tx)
   \<and> merkle_root X [a, b] = Some (node_hash X (leaf_hash X a) (leaf_hash X b))
   \<and> merkle_root X [a, b, c]
       = Some (node_hash X (node_hash X (leaf_hash X a) (leaf_hash X b))
                           (node_hash X (leaf_hash X c) (leaf_hash X c)))"
  by (simp add: merkle_root_def NewMerkleTree_def NewMerkleNode_def leaf_hash_def node_hash_def)

text \<open>
  The claim as stated fails: on the small instance the root of the genesis transaction
  list is the leaf 266, and the hash of the leaf joined with itself is 330.
\<close>

theorem single_leaf_not_duplicated_counterexample:
  "merkle_root toyX [genesis_coinbase] = Some 266
   \<and> leaf_hash toyX genesis_coinbase = 266
   \<and> node_hash toyX (leaf_hash toyX genesis_coinbase) (leaf_hash toyX genesis_coinbase) = 330"
  by (simp add: merkle_root_def merkle_single leaf_hash_def node_hash_def gcb_hash toyX_simps
      toy_Keccak256_hash_bytes toy_Keccak256_pair)

section \<open>Coinbase transactions\<close>




section \<open>What \<open>ValidateBlock\<close> changes\<close>

lemma checkParent_effect:
  "store (snd (checkParent X bc b)) = store bc \<and> head (snd (checkParent X bc b)) = head bc
   \<and> (headers (snd (checkParent X bc b)) = headers bc
      \<or> (0 < Height (Header b) \<and> headers bc (PrevHash (Header b)) = None
          \<and> (\<exists>p. BlockStore_GetHeader X (store bc) (PrevHash (Header b)) = Inr p
                \<and> headers (snd (checkParent X bc b))
                    = (headers bc)(PrevHash (Header b) \<mapsto> p))))"
  by (auto simp: checkParent_def split: option.splits sum.splits)

lemma ValidateBlock_snd: "snd (ValidateBlock X bc b) = snd (checkParent X bc b)"
  by (simp add: ValidateBlock_def split: prod.splits sum.splits)

lemma checkParent_adopts:
  assumes "0 < Height (Header b)" and "headers bc (PrevHash (Header b)) = None"
    and "BlockStore_GetHeader X (store bc) (PrevHash (Header b)) = Inr p"
  shows "snd (checkParent X bc b) = bc\<lparr>headers := (headers bc)(PrevHash (Header b) \<mapsto> p)\<rparr>"
  using assms by (simp add: checkParent_def)

lemma checkParent_unchanged:
  assumes "\<not> 0 < Height (Header b) \<or> headers bc (PrevHash (Header b)) \<noteq> None
           \<or> (\<exists>e. BlockStore_GetHeader X (store bc) (PrevHash (Header b)) = Inl e)"
  shows "snd (checkParent X bc b) = bc"
  using assms by (auto simp: checkParent_def split: option.splits sum.splits)

text \<open>
  C7 (as amended). \<open>ValidateBlock\<close> never changes the store nor the head, whether
  validation succeeds or fails. For a block above height 0 whose parent is not in the
  index but is in the block store, it inserts the parent's header into the index under
  the block's previous hash, and this is the whole change of the chain state; in every
  other case (height 0, parent in the index, parent not readable from the block store)
  the chain state after the call is the state before it.
\<close>

theorem ValidateBlock_effect:
  "store (snd (ValidateBlock X bc b)) = store bc \<and> head (snd (ValidateBlock X bc b)) = head bc
   \<and> (headers (snd (ValidateBlock X bc b)) = headers bc
      \<or> (0 < Height (Header b) \<and> headers bc (PrevHash (Header b)) = None
          \<and> (\<exists>p. BlockStore_GetHeader X (store bc) (PrevHash (Header b)) = Inr p
                \<and> headers (snd (ValidateBlock X bc b))
                    = (headers bc)(PrevHash (Header b) \<mapsto> p))))
   \<and> (0 < Height (Header b) \<and> headers bc (PrevHash (Header b)) = None
        \<and> BlockStore_GetHeader X (store bc) (PrevHash (Header b)) = Inr parent
      \<longrightarrow> snd (ValidateBlock X bc b)
          = bc\<lparr>headers := (headers bc)(PrevHash (Header b) \<mapsto> parent)\<rparr>)
   \<and> (\<not> 0 < Height (Header b) \<or> headers bc (PrevHash (Header b)) \<noteq> None
        \<or> (\<exists>e. BlockStore_GetHeader X (store bc) (PrevHash (Header b)) = Inl e)
      \<longrightarrow> snd (ValidateBlock X bc b) = bc)"
  unfolding ValidateBlock_snd
  using checkParent_effect [of X bc b] checkParent_adopts [of b bc X parent]
    checkParent_unchanged [of b bc X]
  by blast

theorem ValidateBlock_effect_witness:
  "0 < Height (Header remint_block)
   \<and> headers restart_chain (PrevHash (Header remint_block)) = None
   \<and> BlockStore_GetHeader toyX (store restart_chain) (PrevHash (Header remint_block))
       = Inr (Header toy_genesis)
   \<and> snd (ValidateBlock toyX restart_chain remint_block)
       = restart_chain\<lparr>headers := [PrevHash (Header remint_block) \<mapsto> Header toy_genesis]\<rparr>
   \<and> headers genesis_chain (PrevHash (Header remint_block)) \<noteq> None
   \<and> snd (ValidateBlock toyX genesis_chain remint_block) = genesis_chain"
proof -
  have a: "0 < Height (Header remint_block)"
    and b: "headers restart_chain (PrevHash (Header remint_block)) = None"
    and c: "BlockStore_GetHeader toyX (store restart_chain) (PrevHash (Header remint_block))
            = Inr (Header toy_genesis)"
    and d: "headers genesis_chain (PrevHash (Header remint_block)) \<noteq> None"
    by (simp_all add: remint_block_fields restart_chain_fields genesis_stored_header
        genesis_chain_fields(2))
  show ?thesis
    using ValidateBlock_effect [of toyX restart_chain remint_block "Header toy_genesis"]
      ValidateBlock_effect [of toyX genesis_chain remint_block "Header toy_genesis"]
      a b c d
    by (simp add: restart_chain_fields(2))
qed

text \<open>
  The claim as stated fails: after the constructor has loaded an existing chain the
  index is empty, and validating a block on top of the genesis block puts the genesis
  header into the index.
\<close>

theorem ValidateBlock_adopts_parent_counterexample:
  "NewBlockchain toyX (store genesis_chain) 1 = Some (Inr restart_chain, store genesis_chain)
   \<and> headers restart_chain 2564 = None
   \<and> ValidateBlock toyX restart_chain remint_block = (Inr (), genesis_chain)
   \<and> headers genesis_chain 2564 = Some (Header toy_genesis)"
  using restart_run restart_validate
  by (simp add: restart_chain_fields(2) genesis_chain_fields(2))

section \<open>\<open>AddBlock\<close> and rejected blocks\<close>

text \<open>
  C1 (as amended). When \<open>ValidateBlock\<close> rejects a block that is not yet in the index,
  \<open>AddBlock\<close> returns that error, and the store (block store, UTXO and undo keys, tip
  marker) and the head are as before the call; the header index is as before, except
  that the parent's header may have been taken into it from the block store.
\<close>

theorem AddBlock_rejected_by_validation:
  assumes "headers bc (Block_Hash X b) = None"
    and "ValidateBlock X bc b = (Inl e, bc1)"
  shows "AddBlock X bc b = Some (Inl e, bc1) \<and> store bc1 = store bc \<and> head bc1 = head bc
         \<and> (headers bc1 = headers bc
            \<or> (headers bc (PrevHash (Header b)) = None
                \<and> (\<exists>p. BlockStore_GetHeader X (store bc) (PrevHash (Header b)) = Inr p
                      \<and> headers bc1 = (headers bc)(PrevHash (Header b) \<mapsto> p))))"
proof -
  have "AddBlock X bc b = Some (Inl e, bc1)"
    using assms by (simp add: AddBlock_def)
  moreover have "snd (ValidateBlock X bc b) = bc1" using assms(2) by simp
  ultimately show ?thesis
    using checkParent_effect [of X bc b] by (auto simp: ValidateBlock_snd)
qed

theorem AddBlock_rejected_by_validation_witness:
  "headers genesis_chain (Block_Hash toyX wrong_height_block) = None
   \<and> ValidateBlock toyX genesis_chain wrong_height_block = (Inl InvalidHeight, genesis_chain)
   \<and> AddBlock toyX genesis_chain wrong_height_block = Some (Inl InvalidHeight, genesis_chain)"
proof -
  have h: "headers genesis_chain (Block_Hash toyX wrong_height_block) = None"
    by (simp add: wrong_height_block_hash genesis_chain_fields)
  show ?thesis
    using h wrong_height_rejected
      AddBlock_rejected_by_validation [OF h wrong_height_rejected]
    by simp
qed

text \<open>
  The claim as stated fails for errors after validation. The block below spends the
  genesis output twice in one transaction; each input passes \<open>ValidateTransaction\<close>
  against the UTXO set, the block is written to the block store and to the index, and
  \<open>updateUTXOSet\<close> fails at the second input after it has deleted the output. \<open>AddBlock\<close>
  returns the error and leaves all three changes behind.
\<close>

theorem AddBlock_partial_state_counterexample:
  "AddBlock toyX genesis_chain double_spend_block = Some (Inl UTXONotFound, double_spend_state)
   \<and> cells (store genesis_chain) (getUTXOKey 234 0) = Some [232]
   \<and> cells (store double_spend_state) (getUTXOKey 234 0) = None
   \<and> cells (store genesis_chain) (hash_bytes 67193604) = None
   \<and> cells (store double_spend_state) (hash_bytes 67193604)
       = Some (toy_gobBlock double_spend_stored)
   \<and> headers genesis_chain 67193604 = None
   \<and> headers double_spend_state 67193604 = Some (Header double_spend_stored)"
  by (simp add: double_spend_run genesis_chain_fields double_spend_state_def genesis_cells_def
      key_namespaces hash_bytes_inj)

section \<open>Blocks without transactions\<close>

text \<open>
  C10. For an empty transaction list \<open>NewMerkleTree\<close> returns a nil tree and a nil
  error. \<open>ValidateBlock\<close> on a block with no transactions then dereferences the nil tree:
  when the checks before the Merkle comparison pass, the call panics with a nil
  dereference; in no case does it succeed or return the invalid-Merkle-root error.
\<close>

theorem empty_block_nil_dereference:
  assumes "Transactions b = []"
  shows "NewMerkleTree X (Transactions b) = Inr None
         \<and> (fst (checkParent X bc b) = Inr () \<and> checkProofOfWork X b = Inr ()
              \<longrightarrow> fst (ValidateBlock X bc b) = Inl NilDereference)
         \<and> fst (ValidateBlock X bc b) \<noteq> Inr ()
         \<and> fst (ValidateBlock X bc b) \<noteq> Inl InvalidMerkleRoot"
proof -
  have m: "checkMerkleRoot X b = Inl NilDereference"
    using assms by (simp add: checkMerkleRoot_def NewMerkleTree_def)
  have p: "fst (checkParent X bc b) \<noteq> Inl InvalidMerkleRoot"
    by (auto simp: checkParent_def checkAgainstParent_def split: option.splits sum.splits prod.splits)
  have w: "checkProofOfWork X b \<noteq> Inl InvalidMerkleRoot"
    by (simp add: checkProofOfWork_def)
  show ?thesis
    using assms m p w
    by (auto simp: ValidateBlock_def NewMerkleTree_def split: prod.splits sum.splits)
qed

theorem empty_block_nil_dereference_witness:
  "Transactions empty_block = []
   \<and> fst (checkParent toyX genesis_chain empty_block) = Inr ()
   \<and> checkProofOfWork toyX empty_block = Inr ()
   \<and> fst (ValidateBlock toyX genesis_chain empty_block) = Inl NilDereference"
proof -
  have h: "Transactions empty_block = []" by (simp add: empty_block_def)
  show ?thesis
    using h empty_block_checks empty_block_nil_dereference [OF h, of toyX genesis_chain]
    by simp
qed

section \<open>Tip maximality across \<open>AddBlock\<close>\<close>
















section \<open>\<open>NewBlockchain\<close> and the tip marker\<close>





section \<open>Apply and rollback of a block\<close>

text \<open>
  C2, at an input on which the code departs from the claim. The block is accepted on top
  of genesis; its only transaction is the genesis coinbase again, so the output it
  creates has the key of the unspent genesis output. \<open>updateUTXOSet\<close> overwrites that
  entry and records nothing about it in the undo record; \<open>rollbackUTXOSet\<close> deletes it.
  The UTXO that was in the set before the apply is gone after the rollback.
\<close>

theorem rollback_deletes_overwritten_output:
  "AddBlock toyX genesis_chain remint_block = Some (Inr (), remint_state)
   \<and> updateUTXOSet toyX (store genesis_chain) remint_stored = (Inr (), remint_applied)
   \<and> rollbackUTXOSet toyX remint_applied remint_stored = (Inr (), remint_undone)
   \<and> cells (store genesis_chain) (getUTXOKey 234 0) = Some [232]
   \<and> cells remint_undone (getUTXOKey 234 0) = None"
proof -
  have a: "updateUTXOSet toyX (store genesis_chain) remint_stored = (Inr (), remint_applied)"
    by (simp add: updateUTXOSet_def remint_stored_fields gcb_is_coinbase gcb_hash
        genesis_coinbase_fields Store_Put_def toyX_simps toy_gobTxOutput_def toy_gobBlockUndo_def
        remint_stored_hash low_byte_def genesis_chain_fields remint_applied_def)
  have b: "rollbackUTXOSet toyX remint_applied remint_stored = (Inr (), remint_undone)"
    by (simp add: rollbackUTXOSet_def remint_stored_hash remint_applied_def Store_Get_def
        toyX_simps toy_ungobBlockUndo_def toy_gobBlockUndo_def
        remint_stored_fields gcb_hash genesis_coinbase_fields Store_Delete_def
        remint_undone_def)
  show ?thesis
    using remint_run a b
    by (simp add: genesis_chain_fields genesis_cells_utxo remint_undone_def key_namespaces)
qed

section \<open>Header hash\<close>

text \<open>
  C6. The header hash does not depend on the cumulative-work field: replacing
  \<open>CumulativeWork\<close> by any value, a big integer or nil, leaves \<open>Header.Hash\<close> unchanged.
  Two headers that agree on every other field are \<open>h\<close> and \<open>h\<lparr>CumulativeWork := w\<rparr>\<close>.
\<close>

theorem Header_Hash_ignores_CumulativeWork:
  "Header_Hash X (h\<lparr>CumulativeWork := w\<rparr>) = Header_Hash X h"
  by (simp add: Header_Hash_def EncodeForHashing_def)

section \<open>Difficulty controller\<close>

lemma sint_in_int64: "in_int64 (sint (w :: 64 word))"
  using sint_ge [of w] sint_lt [of w] by (simp add: in_int64_def)

lemma signed_take_bit_in_int64: "in_int64 k \<Longrightarrow> signed_take_bit 63 k = k"
  by (simp add: in_int64_def signed_take_bit_int_eq_self)

lemma sint_sub64: "in_int64 (sint a - sint b) \<Longrightarrow> sint (a - b :: 64 word) = sint a - sint b"
  by (simp add: sint_word_ariths signed_take_bit_in_int64)

lemma sint_add64: "in_int64 (sint a + sint b) \<Longrightarrow> sint (a + b :: 64 word) = sint a + sint b"
  by (simp add: sint_word_ariths signed_take_bit_in_int64)

lemma sint_mul64: "in_int64 (sint a * sint b) \<Longrightarrow> sint (a * b :: 64 word) = sint a * sint b"
  by (simp add: sint_word_ariths signed_take_bit_in_int64)

lemma sdiv_in_int64: "in_int64 k \<Longrightarrow> in_int64 (k sdiv 1000)"
  unfolding in_int64_def signed_divide_int_def
  by (cases "k \<ge> 0") (auto simp: sgn_if intro: order_trans)

lemma sint_div64_1000: "sint (div64 a 1000) = sint a sdiv 1000"
  using sdiv_in_int64 [OF sint_in_int64 [of a]]
  by (simp add: div64_def sint_sbintrunc' signed_take_bit_in_int64)

lemma lowerBound_val: "sint (TargetBlockTime - div64 TargetBlockTime 4) = 11250000000"
  by (simp add: div64_def TargetBlockTime_def signed_divide_int_def)

lemma upperBound_val: "sint (TargetBlockTime + div64 TargetBlockTime 2) = 22500000000"
  by (simp add: div64_def TargetBlockTime_def signed_divide_int_def)

lemma spec_bounds:
  "spec_T_target - spec_T_target sdiv 4 = 11250000000"
  "spec_T_target + spec_T_target sdiv 2 = 22500000000"
  by (simp_all add: spec_T_target_def signed_divide_int_def)

lemma newEMA_val:
  assumes "in_int64 (sint t - sint ts)"
    and "in_int64 (95 * (sint t - sint ts))"
    and "in_int64 (905 * sint ema)"
    and "in_int64 (95 * (sint t - sint ts) + 905 * sint ema)"
  shows "sint (div64 (emaAlphaNumerator * (t - ts)
                        + (emaAlphaDenominator - emaAlphaNumerator) * ema) emaAlphaDenominator)
         = (95 * (sint t - sint ts) + (1000 - 95) * sint ema) sdiv 1000"
proof -
  define x where "x = t - ts"
  define y where "y = 95 * x"
  define z where "z = 905 * ema"
  have a: "sint x = sint t - sint ts"
    unfolding x_def using assms(1) by (rule sint_sub64)
  have "in_int64 (sint (95 :: 64 word) * sint x)" using assms(2) by (simp add: a)
  then have "sint y = sint (95 :: 64 word) * sint x" unfolding y_def by (rule sint_mul64)
  then have b: "sint y = 95 * (sint t - sint ts)" by (simp add: a)
  have "in_int64 (sint (905 :: 64 word) * sint ema)" using assms(3) by simp
  then have "sint z = sint (905 :: 64 word) * sint ema" unfolding z_def by (rule sint_mul64)
  then have c: "sint z = 905 * sint ema" by simp
  have "in_int64 (sint y + sint z)" using assms(4) by (simp only: b c)
  then have d: "sint (y + z) = sint y + sint z" by (rule sint_add64)
  have e: "emaAlphaNumerator * (t - ts) + (emaAlphaDenominator - emaAlphaNumerator) * ema = y + z"
    by (simp add: emaAlphaNumerator_def emaAlphaDenominator_def x_def y_def z_def)
  have "sint (div64 (y + z) emaAlphaDenominator) = (sint y + sint z) sdiv 1000"
    by (simp only: emaAlphaDenominator_def sint_div64_1000 d)
  then show ?thesis by (simp only: e b c) simp
qed

lemma difficulty_up:
  assumes "d \<noteq> - 1" shows "uint (d + 1 :: 32 word) = uint d + 1"
proof -
  have "uint d \<noteq> uint (- 1 :: 32 word)"
    using assms by (simp only: word_uint_eq_iff [symmetric] not_False_eq_True)
  moreover have "uint (- 1 :: 32 word) = 4294967295"
    by (simp add: unsigned_minus_1_eq_mask mask_eq_exp_minus_1)
  ultimately have "uint d \<noteq> 4294967295" by simp
  moreover have "uint d < 4294967296" using uint_lt2p [of d] by simp
  moreover have "0 \<le> uint d" by simp
  ultimately show ?thesis by (simp add: uint_word_ariths take_bit_eq_mod)
qed

lemma difficulty_gt1: "((1 :: 32 word) < d) = (1 < uint d)"
  by (simp add: word_less_def)

lemma difficulty_down: "uint (if 1 < d then d - 1 else (1 :: 32 word)) = max 1 (uint d - 1)"
proof (cases "1 < d")
  case True
  then have g: "1 < uint d" by (simp add: difficulty_gt1)
  have "uint d < 4294967296" using uint_lt2p [of d] by simp
  then have "uint (d - 1) = uint d - 1"
    using g by (simp add: uint_word_ariths take_bit_eq_mod)
  then show ?thesis using True g by simp
next
  case False
  then have "\<not> 1 < uint d" by (simp add: difficulty_gt1)
  then show ?thesis using False by simp
qed

text \<open>
  C4 (as amended). On every input on which no intermediate value overflows
  (\<open>no_overflow\<close>), \<open>CalculateNextDifficulty\<close> returns what the specification's controller
  returns: the parent's difficulty and EMA unchanged at parent height 0, and otherwise
  the truncated-division EMA with difficulty \<open>+1\<close> below \<open>T - T/4\<close>, \<open>max 1 (d - 1)\<close> above
  \<open>T + T/2\<close>, and unchanged in between.
\<close>

theorem CalculateNextDifficulty_refines_spec:
  assumes "no_overflow parent t"
  shows "(case CalculateNextDifficulty parent t of (d, e) \<Rightarrow> (uint d, sint e))
         = spec_controller (uint (Height parent)) (uint (Difficulty parent))
             (sint (EMABlockTime parent)) (sint (Timestamp parent)) (sint t)"
proof (cases "Height parent = 0")
  case True
  then show ?thesis by (simp add: CalculateNextDifficulty_def spec_controller_def)
next
  case False
  then have h: "uint (Height parent) \<noteq> 0" by (simp add: uint_0_iff)
  have e: "sint (div64 (emaAlphaNumerator * (t - Timestamp parent)
                 + (emaAlphaDenominator - emaAlphaNumerator) * EMABlockTime parent)
               emaAlphaDenominator)
           = (95 * (sint t - sint (Timestamp parent))
               + (1000 - 95) * sint (EMABlockTime parent)) sdiv 1000"
    using assms False by (intro newEMA_val) (simp_all add: no_overflow_def Let_def)
  have u: "uint (Difficulty parent + 1) = uint (Difficulty parent) + 1"
    using assms False by (intro difficulty_up) (simp add: no_overflow_def Let_def)
  show ?thesis
    using False h
    by (simp add: CalculateNextDifficulty_def spec_controller_def Let_def word_sless_alt
        lowerBound_val upperBound_val spec_bounds e u difficulty_down del: max_less_iff_conj)
qed

theorem CalculateNextDifficulty_refines_spec_witness:
  "no_overflow steady_parent 5000001000
   \<and> (case CalculateNextDifficulty steady_parent 5000001000 of (d, e) \<Rightarrow> (uint d, sint e))
       = (10, 14050000000)"
proof -
  have h: "no_overflow steady_parent 5000001000"
    by (simp add: no_overflow_def steady_parent_def in_int64_def)
  have "spec_controller (uint (Height steady_parent)) (uint (Difficulty steady_parent))
          (sint (EMABlockTime steady_parent)) (sint (Timestamp steady_parent))
          (sint (5000001000 :: 64 word)) = (10, 14050000000)"
    by (simp add: spec_controller_def steady_parent_def spec_T_target_def
        signed_divide_int_def)
  then show ?thesis
    using h CalculateNextDifficulty_refines_spec [OF h] by simp
qed

text \<open>
  The claim as stated, without the range condition, fails: a parent at height 1 with
  timestamp 0 and EMA 0 and a new timestamp of \<open>2 ^ 62\<close>. In \<open>int64\<close> the product
  \<open>95 * 2 ^ 62\<close> wraps to \<open>- (2 ^ 62)\<close>, so the code computes a negative EMA and raises the
  difficulty to 11, where the formula gives a large positive EMA and difficulty 9.
\<close>

theorem CalculateNextDifficulty_overflow_counterexample:
  "(case CalculateNextDifficulty overflow_parent (2 ^ 62) of (d, e) \<Rightarrow> (uint d, sint e))
     = (11, - 4611686018427387)
   \<and> spec_controller (uint (Height overflow_parent)) (uint (Difficulty overflow_parent))
        (sint (EMABlockTime overflow_parent)) (sint (Timestamp overflow_parent))
        (sint (2 ^ 62 :: 64 word))
     = (9, 438110171750601850)"
  by (simp add: CalculateNextDifficulty_def spec_controller_def Let_def word_sless_alt
      overflow_parent_def TargetBlockTime_def spec_T_target_def emaAlphaNumerator_def
      emaAlphaDenominator_def div64_def signed_divide_int_def)

end
